theory Spec2Isabelle
  imports Complex_Main "HOL-Library.Sublist" "HOL-Library.AList" "HOL-Library.Monad_Syntax"
begin

section \<open>Python text\<close>

text \<open>
  A Python \<open>str\<close> is a sequence of Unicode code points, and the source indexes, slices and
  matches it by code point, so the model is a list of code points (as \<open>int\<close>, the value of
  \<open>ord\<close>). \<open>str\<close> turns an ASCII literal into that form.
\<close>

type_synonym pystr = "int list"

definition str :: "string \<Rightarrow> pystr" where
  "str s = map of_char s"

text \<open>
  \<open>str.isspace\<close> per code point; \<open>str.strip()\<close> and the regular expression class
  \<open>\s\<close> on text both use this table.
\<close>

definition isspace :: "int \<Rightarrow> bool" where
  "isspace c \<longleftrightarrow>
     (0x9 \<le> c \<and> c \<le> 0xD) \<or> (0x1C \<le> c \<and> c \<le> 0x20) \<or> c = 0x85 \<or> c = 0xA0 \<or> c = 0x1680 \<or>
     (0x2000 \<le> c \<and> c \<le> 0x200A) \<or> c = 0x2028 \<or> c = 0x2029 \<or> c = 0x202F \<or> c = 0x205F \<or>
     c = 0x3000"

definition strip :: "pystr \<Rightarrow> pystr" where
  "strip s = rev (dropWhile isspace (rev (dropWhile isspace s)))"

text \<open>\<open>s.split(sep)\<close> for a separator of one character: never the empty list.\<close>

fun split :: "int \<Rightarrow> pystr \<Rightarrow> pystr list" where
  "split sep [] = [[]]"
| "split sep (c # cs) =
     (let r = split sep cs in if c = sep then [] # r else (c # hd r) # tl r)"

fun join :: "pystr \<Rightarrow> pystr list \<Rightarrow> pystr" where
  "join sep [] = []"
| "join sep [x] = x"
| "join sep (x # y # ys) = x @ sep @ join sep (y # ys)"

text \<open>\<open>sub in s\<close> is \<^term>\<open>sublist sub s\<close>; \<open>s.startswith(p)\<close> is \<^term>\<open>prefix p s\<close>.\<close>

text \<open>
  \<open>str.lower()\<close>. The source lower-cases text only to search it for ASCII keywords, so the
  table lists every code point whose lower-case form contains an ASCII character: the letters
  \<open>A\<close> to \<open>Z\<close>, U+0130 (to \<open>i\<close> and U+0307) and U+212A (to \<open>k\<close>). Every other code point
  lower-cases to text without ASCII characters and is left as it is.
\<close>

definition lower_cp :: "int \<Rightarrow> pystr" where
  "lower_cp c =
     (if 0x41 \<le> c \<and> c \<le> 0x5A then [c + 0x20]
      else if c = 0x130 then [0x69, 0x307]
      else if c = 0x212A then [0x6B]
      else [c])"

definition lower :: "pystr \<Rightarrow> pystr" where
  "lower s = concat (map lower_cp s)"

text \<open>\<open>str(n)\<close> for an integer.\<close>

fun digits :: "nat \<Rightarrow> pystr" where
  "digits n = (if n < 10 then [0x30 + int n] else digits (n div 10) @ [0x30 + int (n mod 10)])"

declare digits.simps [simp del]

definition str_of_int :: "int \<Rightarrow> pystr" where
  "str_of_int n = (if n < 0 then 0x2D # digits (nat (- n)) else digits (nat n))"

text \<open>\<open>xs[:n]\<close>: a negative bound counts from the end.\<close>

definition slice_to :: "int \<Rightarrow> 'a list \<Rightarrow> 'a list" where
  "slice_to n xs = (if n < 0 then take (nat (int (length xs) + n)) xs else take (nat n) xs)"

text \<open>
  \<open>bytes.decode('utf-8')\<close>, strict: \<open>None\<close> where Python raises \<open>UnicodeDecodeError\<close>
  (a stray or missing continuation byte, an overlong form, a surrogate, a value above
  U+10FFFF). Bytes are integers from 0 to 255.
\<close>

definition cont :: "int \<Rightarrow> bool" where
  "cont b \<longleftrightarrow> 0x80 \<le> b \<and> b \<le> 0xBF"

fun utf8_decode :: "int list \<Rightarrow> pystr option" where
  "utf8_decode [] = Some []"
| "utf8_decode [b] = (if 0 \<le> b \<and> b < 0x80 then Some [b] else None)"
| "utf8_decode [b, c1] =
     (if 0 \<le> b \<and> b < 0x80 then map_option ((#) b) (utf8_decode [c1])
      else if 0xC2 \<le> b \<and> b \<le> 0xDF \<and> cont c1 then Some [(b - 0xC0) * 0x40 + (c1 - 0x80)]
      else None)"
| "utf8_decode [b, c1, c2] =
     (if 0 \<le> b \<and> b < 0x80 then map_option ((#) b) (utf8_decode [c1, c2])
      else if 0xC2 \<le> b \<and> b \<le> 0xDF \<and> cont c1 then
        map_option ((#) ((b - 0xC0) * 0x40 + (c1 - 0x80))) (utf8_decode [c2])
      else if 0xE0 \<le> b \<and> b \<le> 0xEF \<and> cont c1 \<and> cont c2 \<and>
              (if b = 0xE0 then 0xA0 \<le> c1 else if b = 0xED then c1 \<le> 0x9F else True) then
        Some [(b - 0xE0) * 0x1000 + (c1 - 0x80) * 0x40 + (c2 - 0x80)]
      else None)"
| "utf8_decode (b # c1 # c2 # c3 # r) =
     (if 0 \<le> b \<and> b < 0x80 then map_option ((#) b) (utf8_decode (c1 # c2 # c3 # r))
      else if 0xC2 \<le> b \<and> b \<le> 0xDF \<and> cont c1 then
        map_option ((#) ((b - 0xC0) * 0x40 + (c1 - 0x80))) (utf8_decode (c2 # c3 # r))
      else if 0xE0 \<le> b \<and> b \<le> 0xEF \<and> cont c1 \<and> cont c2 \<and>
              (if b = 0xE0 then 0xA0 \<le> c1 else if b = 0xED then c1 \<le> 0x9F else True) then
        map_option ((#) ((b - 0xE0) * 0x1000 + (c1 - 0x80) * 0x40 + (c2 - 0x80)))
          (utf8_decode (c3 # r))
      else if 0xF0 \<le> b \<and> b \<le> 0xF4 \<and> cont c1 \<and> cont c2 \<and> cont c3 \<and>
              (if b = 0xF0 then 0x90 \<le> c1 else if b = 0xF4 then c1 \<le> 0x8F else True) then
        map_option
          ((#) ((b - 0xF0) * 0x40000 + (c1 - 0x80) * 0x1000 + (c2 - 0x80) * 0x40 + (c3 - 0x80)))
          (utf8_decode r)
      else None)"

section \<open>The data model (models/types.py)\<close>

datatype FileStatus = ADDED | MODIFIED | DELETED | RENAMED

record FileChange =
  path :: pystr
  status :: FileStatus
  additions :: int
  deletions :: int
  patch :: "pystr option"

text \<open>
  \<open>GitStats.deletions\<close> is the field \<open>deletions_total\<close> here: a field name belongs to one
  record.
\<close>

record GitStats =
  files_changed :: int
  insertions :: int
  deletions_total :: int

record GitDiff =
  files :: "FileChange list"
  stats :: GitStats
  commit_message :: "pystr option"
  branch :: "pystr option"

text \<open>The fields of \<open>ReviewConfig\<close> that the file filter reads.\<close>

record ReviewConfig =
  exclude_patterns :: "pystr list"
  include_patterns :: "pystr list"
  max_files_per_review :: int

datatype error = ValueError pystr

datatype Severity = CRITICAL | MAJOR | MINOR

datatype Priority = HIGH | MEDIUM | LOW

text \<open>The \<open>value\<close> of an enum member.\<close>

fun severity_value :: "Severity \<Rightarrow> pystr" where
  "severity_value CRITICAL = str ''critical''"
| "severity_value MAJOR = str ''major''"
| "severity_value MINOR = str ''minor''"

fun priority_value :: "Priority \<Rightarrow> pystr" where
  "priority_value HIGH = str ''high''"
| "priority_value MEDIUM = str ''medium''"
| "priority_value LOW = str ''low''"

text \<open>
  \<open>Issue.type\<close> and \<open>Issue.file\<close> are \<open>issue_type\<close> and \<open>issue_file\<close>; the fields
  \<open>id\<close>, \<open>description\<close> and \<open>files\<close> of \<open>Suggestion\<close> are \<open>suggestion_id\<close>,
  \<open>suggestion_description\<close> and \<open>suggestion_files\<close>.
\<close>

record Issue =
  severity :: Severity
  issue_type :: pystr
  issue_file :: "pystr option"
  line :: "int option"
  description :: pystr
  suggestion :: "pystr option"
  code_example :: "pystr option"

record Suggestion =
  suggestion_id :: pystr
  title :: pystr
  suggestion_description :: pystr
  suggestion_files :: "pystr list"
  priority :: Priority
  completed :: bool
  example :: "pystr option"

record TokenUsage =
  input_tokens :: int
  output_tokens :: int
  total_tokens :: int

text \<open>A naive \<open>datetime\<close>, as \<open>datetime.now()\<close> returns it.\<close>

record datetime =
  year :: nat
  month :: nat
  day :: nat
  hour :: nat
  minute :: nat
  second :: nat
  microsecond :: nat

text \<open>
  A Python \<open>float\<close>: a finite number (the two zeros are one value, as they are equal in
  Python), not-a-number, or an infinity. The code under study only carries floats from
  field to field.
\<close>

datatype pyfloat = Finite real | NaN | PosInf | NegInf

record ReviewResult =
  provider :: pystr
  model :: pystr
  timestamp :: datetime
  summary :: pystr
  strengths :: "pystr list"
  issues :: "Issue list"
  suggestions :: "Suggestion list"
  raw_response :: "pystr option"
  tokens :: "TokenUsage option"
  estimated_cost :: "pyfloat option"

text \<open>The values that \<open>json.dumps\<close> accepts; a \<open>dict\<close> keeps its keys in insertion order.\<close>

datatype pyobj =
    PyNone
  | PyBool bool
  | PyInt int
  | PyFloat pyfloat
  | PyStr pystr
  | PyList "pyobj list"
  | PyDict "(pystr \<times> pyobj) list"

text \<open>An exception caught by \<open>except Exception as e\<close>, with the text of \<open>str(e)\<close>.\<close>

datatype exn = Exception pystr

fun message :: "exn \<Rightarrow> pystr" where
  "message (Exception m) = m"

section \<open>Normalising raw changes (core/git_manager.py)\<close>

text \<open>
  A raw change record as the change source (GitPython) hands it over: the two paths, the
  three flags and the patch bytes, each absent when the attribute is \<open>None\<close>.
  \<open>Unreadable\<close> stands for an object on which an attribute read of the \<open>try\<close> block
  raises.
\<close>

record raw_diff =
  a_path :: "pystr option"
  b_path :: "pystr option"
  new_file :: bool
  deleted_file :: bool
  renamed_file :: bool
  diff :: "int list option"

datatype raw_change = Diff raw_diff | Unreadable

text \<open>Truthiness of an optional string: \<open>None\<close> and \<open>""\<close> are false.\<close>

definition truthy :: "'a list option \<Rightarrow> bool" where
  "truthy x = (case x of None \<Rightarrow> False | Some s \<Rightarrow> s \<noteq> [])"

text \<open>The counting loop over the lines of a patch.\<close>

fun count_lines :: "int \<Rightarrow> int \<Rightarrow> pystr list \<Rightarrow> int \<times> int" where
  "count_lines adds dels [] = (adds, dels)"
| "count_lines adds dels (l # ls) =
     (if prefix (str ''+'') l \<and> \<not> prefix (str ''+++'') l then count_lines (adds + 1) dels ls
      else if prefix (str ''-'') l \<and> \<not> prefix (str ''---'') l then
        count_lines adds (dels + 1) ls
      else count_lines adds dels ls)"

definition process_raw_diff :: "raw_diff \<Rightarrow> FileChange option" where
  "process_raw_diff d =
     (let file_path = (if truthy (b_path d) then b_path d else a_path d) in
      if \<not> truthy file_path then None
      else
        let status = (if new_file d then ADDED
                      else if deleted_file d then DELETED
                      else if renamed_file d then RENAMED
                      else MODIFIED);
            patch = (if truthy (diff d) then utf8_decode (the (diff d)) else None);
            counts = (if truthy patch then count_lines 0 0 (split 0xA (the patch)) else (0, 0))
        in Some \<lparr>path = the file_path, status = status, additions = fst counts,
                  deletions = snd counts, patch = patch\<rparr>)"

fun process_single_diff :: "raw_change \<Rightarrow> FileChange option" where
  "process_single_diff (Diff d) = process_raw_diff d"
| "process_single_diff Unreadable = None"

fun process_loop ::
  "FileChange list \<Rightarrow> int \<Rightarrow> int \<Rightarrow> raw_change list \<Rightarrow> FileChange list \<times> int \<times> int" where
  "process_loop fs ins dels [] = (fs, ins, dels)"
| "process_loop fs ins dels (d # ds) =
     (case process_single_diff d of
        Some file_change \<Rightarrow>
          process_loop (fs @ [file_change]) (ins + additions file_change)
            (dels + deletions file_change) ds
      | None \<Rightarrow> process_loop fs ins dels ds)"

definition process_diffs :: "raw_change list \<Rightarrow> pystr option \<Rightarrow> pystr \<Rightarrow> GitDiff" where
  "process_diffs ds msg br =
     (case process_loop [] 0 0 ds of
        (fs, total_insertions, total_deletions) \<Rightarrow>
          \<lparr>files = fs,
           stats = \<lparr>files_changed = int (length fs), insertions = total_insertions,
                    deletions_total = total_deletions\<rparr>,
           commit_message = msg, branch = Some br\<rparr>)"

text \<open>
  The working-tree scope. The two reads of the repository (index against HEAD, working tree
  against index) and the branch name are the inputs.
\<close>

definition get_working_diff :: "raw_change list \<Rightarrow> raw_change list \<Rightarrow> pystr \<Rightarrow> GitDiff" where
  "get_working_diff staged_diffs unstaged_diffs br =
     process_diffs (staged_diffs @ unstaged_diffs) None br"

section \<open>Filtering files (core/review_manager.py)\<close>

text \<open>
  \<open>fnmatch.fnmatch\<close> belongs to the Python library and is a parameter \<open>fm\<close> (name first,
  pattern second). \<open>glob_match\<close> is that matcher on POSIX for patterns without bracket
  expressions: \<open>*\<close> matches any text, \<open>?\<close> any one character.
\<close>

fun glob_match :: "pystr \<Rightarrow> pystr \<Rightarrow> bool" where
  "glob_match [] [] = True"
| "glob_match (c # cs) [] = False"
| "glob_match [] (p # ps) = (p = 0x2A \<and> glob_match [] ps)"
| "glob_match (c # cs) (p # ps) =
     (if p = 0x2A then glob_match (c # cs) ps \<or> glob_match cs (p # ps)
      else (p = 0x3F \<or> p = c) \<and> glob_match cs ps)"

fun filter_loop ::
  "(pystr \<Rightarrow> pystr \<Rightarrow> bool) \<Rightarrow> ReviewConfig \<Rightarrow> FileChange list \<Rightarrow> FileChange list \<Rightarrow>
   FileChange list" where
  "filter_loop fm config filtered_files [] = filtered_files"
| "filter_loop fm config filtered_files (f # fs) =
     (if list_ex (fm (path f)) (exclude_patterns config) then
        filter_loop fm config filtered_files fs
      else if list_ex (fm (path f)) (include_patterns config) then
        filter_loop fm config (filtered_files @ [f]) fs
      else filter_loop fm config filtered_files fs)"

text \<open>The result and the lines printed on the console.\<close>

definition filter_files ::
  "(pystr \<Rightarrow> pystr \<Rightarrow> bool) \<Rightarrow> GitDiff \<Rightarrow> ReviewConfig \<Rightarrow> GitDiff \<times> pystr list" where
  "filter_files fm git_diff config =
     (let filtered_files = filter_loop fm config [] (files git_diff);
          over = (int (length filtered_files) > max_files_per_review config)
      in (\<lparr>files = (if over then slice_to (max_files_per_review config) filtered_files
                    else filtered_files),
           stats = stats git_diff,
           commit_message = commit_message git_diff,
           branch = branch git_diff\<rparr>,
          if over then
            [str ''[yellow]Warning: Limited to '' @ str_of_int (max_files_per_review config) @
             str '' files[/yellow]'']
          else []))"

text \<open>
  The part of \<open>run_review\<close> from the diff to the filtered diff: the console output and
  either the error raised or the diff passed on.
\<close>

definition run_review_filter ::
  "(pystr \<Rightarrow> pystr \<Rightarrow> bool) \<Rightarrow> GitDiff \<Rightarrow> ReviewConfig \<Rightarrow> pystr list \<times> (error + GitDiff)" where
  "run_review_filter fm git_diff config =
     (if files git_diff = [] then ([], Inl (ValueError (str ''No changes found to review'')))
      else
        let r = filter_files fm git_diff config in
        if files (fst r) = [] then
          (snd r, Inl (ValueError (str ''No files to review after filtering'')))
        else (snd r, Inr (fst r)))"


section \<open>Interpreting a response (providers/base.py)\<close>

subsection \<open>Section splitting\<close>

text \<open>
  \<open>re.match(r'^#{1,3}\s+(.+)$', s)\<close> for a line \<open>s\<close> that \<open>strip()\<close> has trimmed and that
  holds no newline: one to three \<open>#\<close>, then white space, then the title. The result is
  group 1. Trimmed text does not end in white space, so the title is never empty; the
  last case is there for other arguments.
\<close>

definition header_match :: "pystr \<Rightarrow> pystr option" where
  "header_match s =
     (let k = length (takeWhile (\<lambda>c. c = 0x23) s); rest = drop k s in
      if 1 \<le> k \<and> k \<le> 3 \<and> rest \<noteq> [] \<and> isspace (hd rest) \<and> dropWhile isspace rest \<noteq> [] then
        Some (dropWhile isspace rest)
      else None)"

text \<open>
  The \<open>dict\<close> of sections is an association list in insertion order; \<open>sections[k] = v\<close> is
  \<^const>\<open>AList.update\<close>, which replaces the value of a key in place and appends a new key.
\<close>

fun sections_loop ::
  "(pystr \<times> pystr) list \<Rightarrow> pystr \<Rightarrow> pystr list \<Rightarrow> pystr list \<Rightarrow> (pystr \<times> pystr) list" where
  "sections_loop sections current_section current_content [] =
     (if current_content \<noteq> [] then
        AList.update current_section (join [0xA] current_content) sections
      else sections)"
| "sections_loop sections current_section current_content (l # ls) =
     (case header_match (strip l) of
        Some t \<Rightarrow>
          sections_loop
            (if current_content \<noteq> [] then
               AList.update current_section (join [0xA] current_content) sections
             else sections)
            t [] ls
      | None \<Rightarrow> sections_loop sections current_section (current_content @ [l]) ls)"

definition split_into_sections :: "pystr \<Rightarrow> (pystr \<times> pystr) list" where
  "split_into_sections response = sections_loop [] (str ''general'') [] (split 0xA response)"

subsection \<open>List items\<close>

text \<open>
  The character class of the bullet pattern as the source file spells it: \<open>-\<close>, \<open>*\<close> and
  the three code points U+00E2, U+20AC, U+00A2.
\<close>

definition bullet_class :: "int \<Rightarrow> bool" where
  "bullet_class c \<longleftrightarrow> c = 0x2D \<or> c = 0x2A \<or> c = 0xE2 \<or> c = 0x20AC \<or> c = 0xA2"

text \<open>
  The class \<open>\d\<close> on text: the decimal digits of Unicode 14 (the table of CPython 3.11).
  Each entry of \<open>digit_zeros\<close> starts a run of ten digits; the mathematical digits are a
  run of fifty.
\<close>

definition digit_zeros :: "int list" where
  "digit_zeros =
     [0x30, 0x660, 0x6F0, 0x7C0, 0x966, 0x9E6, 0xA66, 0xAE6, 0xB66, 0xBE6, 0xC66, 0xCE6, 0xD66,
      0xDE6, 0xE50, 0xED0, 0xF20, 0x1040, 0x1090, 0x17E0, 0x1810, 0x1946, 0x19D0, 0x1A80,
      0x1A90, 0x1B50, 0x1BB0, 0x1C40, 0x1C50, 0xA620, 0xA8D0, 0xA900, 0xA9D0, 0xA9F0, 0xAA50,
      0xABF0, 0xFF10, 0x104A0, 0x10D30, 0x11066, 0x110F0, 0x11136, 0x111D0, 0x112F0, 0x11450,
      0x114D0, 0x11650, 0x116C0, 0x11730, 0x118E0, 0x11950, 0x11C50, 0x11D50, 0x11DA0, 0x16A60,
      0x16AC0, 0x16B50, 0x1E140, 0x1E2F0, 0x1E950, 0x1FBF0]"

definition is_decimal :: "int \<Rightarrow> bool" where
  "is_decimal c \<longleftrightarrow>
     list_ex (\<lambda>z. z \<le> c \<and> c < z + 10) digit_zeros \<or> (0x1D7CE \<le> c \<and> c \<le> 0x1D7FF)"

text \<open>
  A pattern anchored at the start matches at most once; these give the text after the match.
  \<open>match_bullet\<close> is \<open>^[-*...]\s+\<close> and \<open>match_ordinal\<close> is \<open>^\d+\.\s+\<close>.
\<close>

definition match_bullet :: "pystr \<Rightarrow> pystr option" where
  "match_bullet s =
     (case s of
        c # d # r \<Rightarrow> if bullet_class c \<and> isspace d then Some (dropWhile isspace (d # r)) else None
      | _ \<Rightarrow> None)"

definition match_ordinal :: "pystr \<Rightarrow> pystr option" where
  "match_ordinal s =
     (if takeWhile is_decimal s = [] then None
      else
        case dropWhile is_decimal s of
          c # d # r \<Rightarrow> if c = 0x2E \<and> isspace d then Some (dropWhile isspace (d # r)) else None
        | _ \<Rightarrow> None)"

text \<open>\<open>re.sub(pattern, '', s)\<close> for such a pattern.\<close>

definition remove_match :: "(pystr \<Rightarrow> pystr option) \<Rightarrow> pystr \<Rightarrow> pystr" where
  "remove_match m s = (case m s of Some r \<Rightarrow> r | None \<Rightarrow> s)"

fun extract_loop :: "pystr list \<Rightarrow> pystr list \<Rightarrow> pystr list" where
  "extract_loop items [] = items"
| "extract_loop items (l # ls) =
     (let txt = strip l in
      if match_bullet txt \<noteq> None \<or> match_ordinal txt \<noteq> None then
        let item = remove_match match_ordinal (remove_match match_bullet txt) in
        if item \<noteq> [] then extract_loop (items @ [item]) ls else extract_loop items ls
      else extract_loop items ls)"

definition extract_list_items :: "pystr \<Rightarrow> pystr list" where
  "extract_list_items content = extract_loop [] (split 0xA content)"

subsection \<open>Issues\<close>

text \<open>
  The three glyph literals as the source file spells them. Read as UTF-8, as Python reads a
  source file, each is four code points; none is the code point of a coloured circle
  (U+1F534, U+1F7E1, U+1F7E2).
\<close>

definition red_glyph :: pystr where
  "red_glyph = [0xF0, 0x178, 0x201D, 0xB4]"

definition yellow_glyph :: pystr where
  "yellow_glyph = [0xF0, 0x178, 0x178, 0xA1]"

definition green_glyph :: pystr where
  "green_glyph = [0xF0, 0x178, 0x178, 0xA2]"

text \<open>The character class made of the three literals.\<close>

definition glyph_class :: "int \<Rightarrow> bool" where
  "glyph_class c \<longleftrightarrow> c \<in> set (red_glyph @ yellow_glyph @ green_glyph)"

text \<open>
  Matching with \<open>re.IGNORECASE\<close>: a lower-case ASCII letter \<open>p\<close> of the pattern matches
  itself and its capital; \<open>i\<close> also matches U+0130 and U+0131.
\<close>

definition ieq :: "int \<Rightarrow> int \<Rightarrow> bool" where
  "ieq p c \<longleftrightarrow>
     c = p \<or> (0x41 \<le> c \<and> c \<le> 0x5A \<and> c + 0x20 = p) \<or> (p = 0x69 \<and> (c = 0x130 \<or> c = 0x131))"

definition imatch :: "pystr \<Rightarrow> pystr \<Rightarrow> bool" where
  "imatch w t \<longleftrightarrow> length w \<le> length t \<and> list_all2 ieq w (take (length w) t)"

text \<open>The alternation \<open>(Critical|Major|Minor)\<close> at the start of \<open>t\<close>: the length matched.\<close>

definition severity_word :: "pystr \<Rightarrow> nat option" where
  "severity_word t =
     (if imatch (str ''critical'') t then Some 8
      else if imatch (str ''major'') t then Some 5
      else if imatch (str ''minor'') t then Some 5
      else None)"

text \<open>
  The pattern \<open>\*?\*?(Critical|Major|Minor)\*?\*?:?\s*\<close> at the start of \<open>t\<close>: the length
  of the match. The word does not start with \<open>*\<close>, so the leading stars of \<open>t\<close> must all be
  consumed, and there may be at most two of them; everything after the word is greedy.
\<close>

definition severity_match :: "pystr \<Rightarrow> nat option" where
  "severity_match t =
     (let a = length (takeWhile (\<lambda>c. c = 0x2A) t) in
      if a > 2 then None
      else
        case severity_word (drop a t) of
          None \<Rightarrow> None
        | Some w \<Rightarrow>
            let r1 = drop (a + w) t;
                b = min 2 (length (takeWhile (\<lambda>c. c = 0x2A) r1));
                r2 = drop b r1;
                k = (if r2 \<noteq> [] \<and> hd r2 = 0x3A then 1 else 0);
                s = length (takeWhile isspace (drop k r2))
            in Some (a + w + b + k + s))"

text \<open>
  \<open>re.sub\<close> of that pattern by the empty string, scanning from the left; the first argument
  counts the characters of the current match that are still to be dropped.
\<close>

fun sub_severity :: "nat \<Rightarrow> pystr \<Rightarrow> pystr" where
  "sub_severity k [] = []"
| "sub_severity (Suc k) (c # cs) = sub_severity k cs"
| "sub_severity 0 (c # cs) =
     (case severity_match (c # cs) of
        Some n \<Rightarrow> sub_severity (n - 1) cs
      | None \<Rightarrow> c # sub_severity 0 cs)"

definition clean_issue_text :: "pystr \<Rightarrow> pystr" where
  "clean_issue_text text = strip (sub_severity 0 (filter (\<lambda>c. \<not> glyph_class c) text))"

definition new_issue :: "Severity \<Rightarrow> pystr \<Rightarrow> Issue" where
  "new_issue sev txt =
     \<lparr>severity = sev, issue_type = str ''general'', issue_file = None, line = None,
      description = clean_issue_text txt, suggestion = None, code_example = None\<rparr>"

text \<open>The loop of \<open>_parse_issues\<close>: the issues closed so far, the open issue, the lines left.\<close>

fun issues_loop :: "Issue list \<Rightarrow> Issue option \<Rightarrow> pystr list \<Rightarrow> Issue list" where
  "issues_loop out current_issue [] =
     (case current_issue of Some i \<Rightarrow> out @ [i] | None \<Rightarrow> out)"
| "issues_loop out current_issue (l # ls) =
     (let txt = strip l;
          closed = (case current_issue of Some i \<Rightarrow> out @ [i] | None \<Rightarrow> out)
      in
        if sublist red_glyph txt \<or> sublist (str ''critical'') (lower txt) then
          issues_loop closed (Some (new_issue CRITICAL txt)) ls
        else if sublist yellow_glyph txt \<or> sublist (str ''major'') (lower txt) then
          issues_loop closed (Some (new_issue MAJOR txt)) ls
        else if sublist green_glyph txt \<or> sublist (str ''minor'') (lower txt) then
          issues_loop closed (Some (new_issue MINOR txt)) ls
        else if current_issue \<noteq> None \<and> txt \<noteq> [] then
          issues_loop out
            (map_option (\<lambda>i. i\<lparr>description := description i @ str '' '' @ txt\<rparr>) current_issue) ls
        else issues_loop out current_issue ls)"

definition parse_issues :: "pystr \<Rightarrow> Issue list" where
  "parse_issues content = issues_loop [] None (split 0xA content)"

subsection \<open>Suggestions\<close>

text \<open>The loop over \<open>enumerate(items)\<close>: the suggestions so far, the index, the items left.\<close>

fun suggestions_loop :: "Suggestion list \<Rightarrow> nat \<Rightarrow> pystr list \<Rightarrow> Suggestion list" where
  "suggestions_loop out i [] = out"
| "suggestions_loop out i (item # rest) =
     (let prio =
            (if list_ex (\<lambda>w. sublist w (lower item))
                  [str ''urgent'', str ''critical'', str ''important''] then HIGH
             else if list_ex (\<lambda>w. sublist w (lower item))
                  [str ''minor'', str ''optional'', str ''consider''] then LOW
             else MEDIUM);
          s = \<lparr>suggestion_id = str ''suggestion-'' @ str_of_int (int i + 1),
               title = (if sublist (str ''.'') item then hd (split 0x2E item)
                        else slice_to 50 item),
               suggestion_description = item,
               suggestion_files = [],
               priority = prio,
               completed = False,
               example = None\<rparr>
      in suggestions_loop (out @ [s]) (i + 1) rest)"

definition parse_suggestions :: "pystr \<Rightarrow> Suggestion list" where
  "parse_suggestions content = suggestions_loop [] 0 (extract_list_items content)"

subsection \<open>The whole response\<close>

text \<open>
  \<open>parse_review_response\<close> calls four methods of the receiver inside its \<open>try\<close> block.
  \<open>methods\<close> holds them, each returning its value or the exception it raises, so that the
  \<open>except\<close> branch is part of the model; \<open>base_methods\<close> are the ones of
  \<open>BaseAIProvider\<close>, which return.
\<close>

record methods =
  split_method :: "pystr \<Rightarrow> exn + (pystr \<times> pystr) list"
  items_method :: "pystr \<Rightarrow> exn + pystr list"
  issues_method :: "pystr \<Rightarrow> exn + Issue list"
  suggestions_method :: "pystr \<Rightarrow> exn + Suggestion list"

definition base_methods :: methods where
  "base_methods =
     \<lparr>split_method = (\<lambda>s. Inr (split_into_sections s)),
      items_method = (\<lambda>s. Inr (extract_list_items s)),
      issues_method = (\<lambda>s. Inr (parse_issues s)),
      suggestions_method = (\<lambda>s. Inr (parse_suggestions s))\<rparr>"

text \<open>The result as constructed before the \<open>try\<close>; \<open>now\<close> is the clock read by the default.\<close>

definition initial_result :: "datetime \<Rightarrow> pystr \<Rightarrow> pystr \<Rightarrow> pystr \<Rightarrow> ReviewResult" where
  "initial_result now response prov mdl =
     \<lparr>provider = prov, model = mdl, timestamp = now, summary = [], strengths = [], issues = [],
      suggestions = [], raw_response = Some response, tokens = None, estimated_cost = None\<rparr>"

text \<open>One round of the loop over \<open>sections.items()\<close>.\<close>

definition apply_section :: "methods \<Rightarrow> ReviewResult \<Rightarrow> pystr \<times> pystr \<Rightarrow> exn + ReviewResult" where
  "apply_section ms result sec =
     (let title_lower = lower (fst sec); content = snd sec in
      if sublist (str ''summary'') title_lower then Inr (result\<lparr>summary := strip content\<rparr>)
      else if sublist (str ''strength'') title_lower then
        (case items_method ms content of
           Inl e \<Rightarrow> Inl e
         | Inr v \<Rightarrow> Inr (result\<lparr>strengths := v\<rparr>))
      else if sublist (str ''issue'') title_lower \<or> sublist (str ''problem'') title_lower then
        (case issues_method ms content of
           Inl e \<Rightarrow> Inl e
         | Inr v \<Rightarrow> Inr (result\<lparr>issues := v\<rparr>))
      else if sublist (str ''suggestion'') title_lower \<or>
              sublist (str ''improvement'') title_lower then
        (case suggestions_method ms content of
           Inl e \<Rightarrow> Inl e
         | Inr v \<Rightarrow> Inr (result\<lparr>suggestions := v\<rparr>))
      else Inr result)"

text \<open>
  The loop: \<open>Inr\<close> the result at its end, or \<open>Inl\<close> the exception raised together with
  the result as the rounds before it left it.
\<close>

fun sections_fold ::
  "methods \<Rightarrow> ReviewResult \<Rightarrow> (pystr \<times> pystr) list \<Rightarrow> (exn \<times> ReviewResult) + ReviewResult" where
  "sections_fold ms result [] = Inr result"
| "sections_fold ms result (sec # rest) =
     (case apply_section ms result sec of
        Inl e \<Rightarrow> Inl (e, result)
      | Inr r \<Rightarrow> sections_fold ms r rest)"

definition try_body ::
  "methods \<Rightarrow> ReviewResult \<Rightarrow> pystr \<Rightarrow> (exn \<times> ReviewResult) + ReviewResult" where
  "try_body ms result response =
     (case split_method ms response of
        Inl e \<Rightarrow> Inl (e, result)
      | Inr sections \<Rightarrow> sections_fold ms result sections)"

definition parse_review_response_with ::
  "methods \<Rightarrow> datetime \<Rightarrow> pystr \<Rightarrow> pystr \<Rightarrow> pystr \<Rightarrow> ReviewResult" where
  "parse_review_response_with ms now response prov mdl =
     (case try_body ms (initial_result now response prov mdl) response of
        Inr r \<Rightarrow> r
      | Inl (e, r) \<Rightarrow>
          r\<lparr>summary := str ''Parsing error: '' @ message e, issues := [], suggestions := []\<rparr>)"

definition parse_review_response :: "datetime \<Rightarrow> pystr \<Rightarrow> pystr \<Rightarrow> pystr \<Rightarrow> ReviewResult" where
  "parse_review_response = parse_review_response_with base_methods"

section \<open>Serialising a result (core/review_manager.py)\<close>

text \<open>\<open>datetime.isoformat()\<close> of a naive \<open>datetime\<close>.\<close>

definition zfill :: "nat \<Rightarrow> pystr \<Rightarrow> pystr" where
  "zfill w s = replicate (w - length s) 0x30 @ s"

definition isoformat :: "datetime \<Rightarrow> pystr" where
  "isoformat dt =
     zfill 4 (digits (year dt)) @ str ''-'' @ zfill 2 (digits (month dt)) @ str ''-'' @
     zfill 2 (digits (day dt)) @ str ''T'' @ zfill 2 (digits (hour dt)) @ str '':'' @
     zfill 2 (digits (minute dt)) @ str '':'' @ zfill 2 (digits (second dt)) @
     (if microsecond dt = 0 then [] else str ''.'' @ zfill 6 (digits (microsecond dt)))"

definition optional :: "('a \<Rightarrow> pyobj) \<Rightarrow> 'a option \<Rightarrow> pyobj" where
  "optional f x = (case x of None \<Rightarrow> PyNone | Some v \<Rightarrow> f v)"

definition serialize_issue :: "Issue \<Rightarrow> pyobj" where
  "serialize_issue issue =
     PyDict
       [(str ''severity'', PyStr (severity_value (severity issue))),
        (str ''type'', PyStr (issue_type issue)),
        (str ''file'', optional PyStr (issue_file issue)),
        (str ''line'', optional PyInt (line issue)),
        (str ''description'', PyStr (description issue)),
        (str ''suggestion'', optional PyStr (suggestion issue)),
        (str ''code_example'', optional PyStr (code_example issue))]"

definition serialize_suggestion :: "Suggestion \<Rightarrow> pyobj" where
  "serialize_suggestion s =
     PyDict
       [(str ''id'', PyStr (suggestion_id s)),
        (str ''title'', PyStr (title s)),
        (str ''description'', PyStr (suggestion_description s)),
        (str ''files'', PyList (map PyStr (suggestion_files s))),
        (str ''priority'', PyStr (priority_value (priority s))),
        (str ''completed'', PyBool (completed s)),
        (str ''example'', optional PyStr (example s))]"

definition serialize_tokens :: "TokenUsage \<Rightarrow> pyobj" where
  "serialize_tokens t =
     PyDict
       [(str ''input'', PyInt (input_tokens t)),
        (str ''output'', PyInt (output_tokens t)),
        (str ''total'', PyInt (total_tokens t))]"

text \<open>
  The dictionary that \<open>_serialize_result\<close> returns. A \<open>TokenUsage\<close> object is true in a
  condition, so \<open>tokens\<close> is written whenever it is not \<open>None\<close>.
\<close>

definition serialize_result :: "ReviewResult \<Rightarrow> pyobj" where
  "serialize_result result =
     PyDict
       [(str ''provider'', PyStr (provider result)),
        (str ''model'', PyStr (model result)),
        (str ''timestamp'', PyStr (isoformat (timestamp result))),
        (str ''summary'', PyStr (summary result)),
        (str ''strengths'', PyList (map PyStr (strengths result))),
        (str ''issues'', PyList (map serialize_issue (issues result))),
        (str ''suggestions'', PyList (map serialize_suggestion (suggestions result))),
        (str ''tokens'', optional serialize_tokens (tokens result)),
        (str ''estimated_cost'', optional PyFloat (estimated_cost result))]"

section \<open>The rules of the specification\<close>

text \<open>
  The file filter: a file is reviewable when no exclude glob matches it and some include
  glob does.
\<close>

definition reviewable :: "(pystr \<Rightarrow> pystr \<Rightarrow> bool) \<Rightarrow> ReviewConfig \<Rightarrow> FileChange \<Rightarrow> bool" where
  "reviewable fm config f \<longleftrightarrow>
     \<not> (\<exists>p \<in> set (exclude_patterns config). fm (path f) p) \<and>
     (\<exists>p \<in> set (include_patterns config). fm (path f) p)"

text \<open>
  A suggestion from the item of index \<open>n\<close>: the title is the text before the first \<open>.\<close>, or
  the first 50 characters when there is none; the priority is High on a High keyword, else
  Low on a Low keyword, else Medium.
\<close>

definition spec_title :: "pystr \<Rightarrow> pystr" where
  "spec_title item =
     (if 0x2E \<in> set item then takeWhile (\<lambda>c. c \<noteq> 0x2E) item else take 50 item)"

definition spec_priority :: "pystr \<Rightarrow> Priority" where
  "spec_priority item =
     (if \<exists>w \<in> {str ''urgent'', str ''critical'', str ''important''}. sublist w (lower item)
      then HIGH
      else if \<exists>w \<in> {str ''minor'', str ''optional'', str ''consider''}. sublist w (lower item)
      then LOW
      else MEDIUM)"

definition spec_suggestion :: "nat \<Rightarrow> pystr \<Rightarrow> Suggestion" where
  "spec_suggestion n item =
     \<lparr>suggestion_id = str ''suggestion-'' @ digits n, title = spec_title item,
      suggestion_description = item, suggestion_files = [], priority = spec_priority item,
      completed = False, example = None\<rparr>"

text \<open>
  The sections of a response in the order of the scan, each with its title and the lines
  accumulated under it: the opening section \<open>general\<close>, then one section per heading.
\<close>

fun section_blocks :: "pystr \<Rightarrow> pystr list \<Rightarrow> pystr list \<Rightarrow> (pystr \<times> pystr list) list" where
  "section_blocks t buf [] = [(t, buf)]"
| "section_blocks t buf (l # ls) =
     (case header_match (strip l) of
        Some t' \<Rightarrow> (t, buf) # section_blocks t' [] ls
      | None \<Rightarrow> section_blocks t (buf @ [l]) ls)"

definition blocks_of :: "pystr \<Rightarrow> (pystr \<times> pystr list) list" where
  "blocks_of response = section_blocks (str ''general'') [] (split 0xA response)"

section \<open>Example inputs\<close>

text \<open>
  A staged edit of \<open>app.py\<close> with a patch of one added and one removed line, the deletion
  of the same file in the working tree, and a record that exposes no path.
\<close>

definition staged_example :: raw_change where
  "staged_example =
     Diff \<lparr>a_path = Some (str ''app.py''), b_path = Some (str ''app.py''), new_file = False,
           deleted_file = False, renamed_file = False,
           diff = Some [0x2B, 0x78, 0x0A, 0x2D, 0x79]\<rparr>"

definition unstaged_example :: raw_change where
  "unstaged_example =
     Diff \<lparr>a_path = Some (str ''app.py''), b_path = None, new_file = False,
           deleted_file = True, renamed_file = False, diff = None\<rparr>"

definition pathless_example :: raw_diff where
  "pathless_example =
     \<lparr>a_path = None, b_path = Some [], new_file = True, deleted_file = False,
      renamed_file = False, diff = Some [0x2B, 0x78]\<rparr>"

text \<open>
  A diff of four added files, a configuration that excludes \<open>build/*\<close>, includes \<open>*.py\<close>
  and caps the review at one file, and one that excludes every file.
\<close>

definition added_file :: "pystr \<Rightarrow> raw_change" where
  "added_file p =
     Diff \<lparr>a_path = None, b_path = Some p, new_file = True, deleted_file = False,
           renamed_file = False, diff = Some (str ''+x'')\<rparr>"

definition example_diff :: GitDiff where
  "example_diff =
     process_diffs
       [added_file (str ''src/a.py''), added_file (str ''build/x.py''), added_file (str ''b.py''),
        added_file (str ''README.md'')]
       None (str ''main'')"

definition example_config :: ReviewConfig where
  "example_config =
     \<lparr>exclude_patterns = [str ''build/*''], include_patterns = [str ''*.py''],
      max_files_per_review = 1\<rparr>"

definition excluding_config :: ReviewConfig where
  "excluding_config =
     \<lparr>exclude_patterns = [str ''*''], include_patterns = [str ''*.py''],
      max_files_per_review = 50\<rparr>"

text \<open>Two list items and a line that is none.\<close>

definition suggestions_example :: pystr where
  "suggestions_example =
     str ''1. Urgent: this is optional'' @ [0xA] @ str ''* Consider a rename'' @ [0xA] @
     str ''not a list item''"

text \<open>What closing a section does to the mapping: a section without lines stores nothing.\<close>

definition store_block :: "pystr \<times> pystr list \<Rightarrow> (pystr \<times> pystr) list \<Rightarrow> (pystr \<times> pystr) list" where
  "store_block b sections =
     (if snd b \<noteq> [] then AList.update (fst b) (join [0xA] (snd b)) sections else sections)"

text \<open>A response whose heading \<open>A\<close> occurs twice, the second time with no line under it.\<close>

definition repeated_heading_example :: pystr where
  "repeated_heading_example = str ''# A'' @ [0xA] @ str ''foo'' @ [0xA] @ str ''# A''"

text \<open>A response whose heading \<open>A\<close> occurs twice with lines under both.\<close>

definition repeated_section_example :: pystr where
  "repeated_section_example =
     str ''# A'' @ [0xA] @ str ''foo'' @ [0xA] @ str ''# A'' @ [0xA] @ str ''bar''"

text \<open>The ranges in which the class \<open>datetime\<close> keeps its fields.\<close>

definition datetime_ok :: "datetime \<Rightarrow> bool" where
  "datetime_ok dt \<longleftrightarrow>
     1 \<le> year dt \<and> year dt \<le> 9999 \<and> 1 \<le> month dt \<and> month dt \<le> 12 \<and> 1 \<le> day dt \<and>
     day dt \<le> 31 \<and> hour dt < 24 \<and> minute dt < 60 \<and> second dt < 60 \<and> microsecond dt < 1000000"

text \<open>The number that a string of ASCII digits denotes.\<close>

definition undigits :: "pystr \<Rightarrow> nat" where
  "undigits s = foldl (\<lambda>a c. 10 * a + nat (c - 0x30)) 0 s"

text \<open>A moment, and the result of interpreting a short response at that moment.\<close>

definition example_now :: datetime where
  "example_now =
     \<lparr>year = 2024, month = 1, day = 2, hour = 3, minute = 4, second = 5, microsecond = 0\<rparr>"

definition example_result :: ReviewResult where
  "example_result =
     parse_review_response example_now
       (str ''## Issues'' @ [0xA] @ str ''Critical: leak'') (str ''claude'') (str ''opus'')"



text \<open>
  The Issues text of the specification, with the coloured circles U+1F534 and U+1F7E2; the
  same lines marked by keywords; and the same text with the glyphs as the source file
  spells them.
\<close>

definition circles_example :: pystr where
  "circles_example =
     [0x1F534] @ str '' Null check missing'' @ [0xA] @ str ''Also crashes on empty input'' @
     [0xA] @ [0x1F7E2] @ str '' Minor style nit''"

definition keywords_example :: pystr where
  "keywords_example =
     str ''Critical: Null check missing'' @ [0xA] @ str ''Also crashes on empty input'' @
     [0xA] @ str ''Minor style nit''"

definition literals_example :: pystr where
  "literals_example =
     red_glyph @ str '' Null check missing'' @ [0xA] @ str ''Also crashes on empty input'' @
     [0xA] @ green_glyph @ str '' Minor style nit''"

text \<open>
  The severity that a trimmed line marks, if any: the tests of the loop of
  \<open>_parse_issues\<close> in their order.
\<close>

definition severity_of :: "pystr \<Rightarrow> Severity option" where
  "severity_of t =
     (if sublist red_glyph t \<or> sublist (str ''critical'') (lower t) then Some CRITICAL
      else if sublist yellow_glyph t \<or> sublist (str ''major'') (lower t) then Some MAJOR
      else if sublist green_glyph t \<or> sublist (str ''minor'') (lower t) then Some MINOR
      else None)"

text \<open>
  The trimmed lines grouped by markers, scanning from the end: the non-empty lines met
  since the last marker, and the groups found, each a severity, its marker line and the
  non-empty lines that follow it up to the next marker.
\<close>

fun collect ::
  "pystr \<Rightarrow> pystr list \<times> (Severity \<times> pystr \<times> pystr list) list \<Rightarrow>
   pystr list \<times> (Severity \<times> pystr \<times> pystr list) list" where
  "collect t (conts, groups) =
     (case severity_of t of
        Some sev \<Rightarrow> ([], (sev, t, conts) # groups)
      | None \<Rightarrow> if t \<noteq> [] then (t # conts, groups) else (conts, groups))"

definition issue_groups :: "pystr list \<Rightarrow> (Severity \<times> pystr \<times> pystr list) list" where
  "issue_groups ts = snd (foldr collect ts ([], []))"

definition joined :: "pystr list \<Rightarrow> pystr" where
  "joined conts = concat (map (\<lambda>c. str '' '' @ c) conts)"

definition issue_of :: "Severity \<times> pystr \<times> pystr list \<Rightarrow> Issue" where
  "issue_of g =
     \<lparr>severity = fst g, issue_type = str ''general'', issue_file = None, line = None,
      description = clean_issue_text (fst (snd g)) @ joined (snd (snd g)),
      suggestion = None, code_example = None\<rparr>"

section \<open>Re-parsing a serialised result\<close>

text \<open>
  Modelled from the spec: the re-parsing of a serialised result, which the repository does
  not have (it only loads the files as dictionaries). It reads the schema of the data
  model: text as text, optional fields from \<open>null\<close>, enum members from their lower-case
  string values, the timestamp from ISO 8601, the token counts from \<open>input\<close>, \<open>output\<close>
  and \<open>total\<close>. The serialised form has no entry for \<open>raw_response\<close>, so a re-parsed
  result has none.
\<close>

fun entry :: "pystr \<Rightarrow> pyobj \<Rightarrow> pyobj option" where
  "entry k (PyDict kvs) = map_of kvs k"
| "entry k _ = None"

fun read_str :: "pyobj \<Rightarrow> pystr option" where
  "read_str (PyStr s) = Some s"
| "read_str _ = None"

fun read_int :: "pyobj \<Rightarrow> int option" where
  "read_int (PyInt n) = Some n"
| "read_int _ = None"

fun read_float :: "pyobj \<Rightarrow> pyfloat option" where
  "read_float (PyFloat x) = Some x"
| "read_float _ = None"

fun read_bool :: "pyobj \<Rightarrow> bool option" where
  "read_bool (PyBool b) = Some b"
| "read_bool _ = None"

fun read_optional :: "(pyobj \<Rightarrow> 'a option) \<Rightarrow> pyobj \<Rightarrow> 'a option option" where
  "read_optional f PyNone = Some None"
| "read_optional f v = map_option Some (f v)"

fun read_list :: "(pyobj \<Rightarrow> 'a option) \<Rightarrow> pyobj \<Rightarrow> 'a list option" where
  "read_list f (PyList vs) = those (map f vs)"
| "read_list f _ = None"

definition read_severity :: "pystr \<Rightarrow> Severity option" where
  "read_severity s =
     (if s = str ''critical'' then Some CRITICAL
      else if s = str ''major'' then Some MAJOR
      else if s = str ''minor'' then Some MINOR
      else None)"

definition read_priority :: "pystr \<Rightarrow> Priority option" where
  "read_priority s =
     (if s = str ''high'' then Some HIGH
      else if s = str ''medium'' then Some MEDIUM
      else if s = str ''low'' then Some LOW
      else None)"

text \<open>
  ISO 8601 as \<open>YYYY-MM-DDTHH:MM:SS\<close>, followed by \<open>.ffffff\<close> or by nothing: the digits at
  their places, read as numbers.
\<close>

definition is_digit :: "int \<Rightarrow> bool" where
  "is_digit c \<longleftrightarrow> 0x30 \<le> c \<and> c \<le> 0x39"

definition read_iso8601 :: "pystr \<Rightarrow> datetime option" where
  "read_iso8601 s =
     (let y = take 4 s; mo = take 2 (drop 5 s); d = take 2 (drop 8 s); h = take 2 (drop 11 s);
          mi = take 2 (drop 14 s); se = take 2 (drop 17 s); frac = drop 19 s
      in
        if 19 \<le> length s \<and> s ! 4 = 0x2D \<and> s ! 7 = 0x2D \<and> s ! 10 = 0x54 \<and> s ! 13 = 0x3A \<and>
           s ! 16 = 0x3A \<and> list_all is_digit (y @ mo @ d @ h @ mi @ se) \<and>
           (frac = [] \<or> (length frac = 7 \<and> hd frac = 0x2E \<and> list_all is_digit (tl frac)))
        then
          Some \<lparr>year = undigits y, month = undigits mo, day = undigits d, hour = undigits h,
                minute = undigits mi, second = undigits se,
                microsecond = (if frac = [] then 0 else undigits (tl frac))\<rparr>
        else None)"

definition reparse_issue :: "pyobj \<Rightarrow> Issue option" where
  "reparse_issue v =
     do {
       sev \<leftarrow> entry (str ''severity'') v \<bind> read_str \<bind> read_severity;
       ty \<leftarrow> entry (str ''type'') v \<bind> read_str;
       fl \<leftarrow> entry (str ''file'') v \<bind> read_optional read_str;
       li \<leftarrow> entry (str ''line'') v \<bind> read_optional read_int;
       de \<leftarrow> entry (str ''description'') v \<bind> read_str;
       su \<leftarrow> entry (str ''suggestion'') v \<bind> read_optional read_str;
       ce \<leftarrow> entry (str ''code_example'') v \<bind> read_optional read_str;
       Some \<lparr>severity = sev, issue_type = ty, issue_file = fl, line = li, description = de,
             suggestion = su, code_example = ce\<rparr>
     }"

definition reparse_suggestion :: "pyobj \<Rightarrow> Suggestion option" where
  "reparse_suggestion v =
     do {
       i \<leftarrow> entry (str ''id'') v \<bind> read_str;
       t \<leftarrow> entry (str ''title'') v \<bind> read_str;
       de \<leftarrow> entry (str ''description'') v \<bind> read_str;
       fs \<leftarrow> entry (str ''files'') v \<bind> read_list read_str;
       p \<leftarrow> entry (str ''priority'') v \<bind> read_str \<bind> read_priority;
       c \<leftarrow> entry (str ''completed'') v \<bind> read_bool;
       ex \<leftarrow> entry (str ''example'') v \<bind> read_optional read_str;
       Some \<lparr>suggestion_id = i, title = t, suggestion_description = de, suggestion_files = fs,
             priority = p, completed = c, example = ex\<rparr>
     }"

definition reparse_tokens :: "pyobj \<Rightarrow> TokenUsage option" where
  "reparse_tokens v =
     do {
       i \<leftarrow> entry (str ''input'') v \<bind> read_int;
       out \<leftarrow> entry (str ''output'') v \<bind> read_int;
       t \<leftarrow> entry (str ''total'') v \<bind> read_int;
       Some \<lparr>input_tokens = i, output_tokens = out, total_tokens = t\<rparr>
     }"

definition reparse_result :: "pyobj \<Rightarrow> ReviewResult option" where
  "reparse_result v =
     do {
       p \<leftarrow> entry (str ''provider'') v \<bind> read_str;
       m \<leftarrow> entry (str ''model'') v \<bind> read_str;
       ts \<leftarrow> entry (str ''timestamp'') v \<bind> read_str \<bind> read_iso8601;
       su \<leftarrow> entry (str ''summary'') v \<bind> read_str;
       st \<leftarrow> entry (str ''strengths'') v \<bind> read_list read_str;
       iss \<leftarrow> entry (str ''issues'') v \<bind> read_list reparse_issue;
       sgs \<leftarrow> entry (str ''suggestions'') v \<bind> read_list reparse_suggestion;
       tk \<leftarrow> entry (str ''tokens'') v \<bind> read_optional reparse_tokens;
       co \<leftarrow> entry (str ''estimated_cost'') v \<bind> read_optional read_float;
       Some \<lparr>provider = p, model = m, timestamp = ts, summary = su, strengths = st,
             issues = iss, suggestions = sgs, raw_response = None, tokens = tk,
             estimated_cost = co\<rparr>
     }"

text \<open>
  Equality of two results as Python computes it, field by field: a float that is
  not-a-number is equal to nothing, not even to itself.
\<close>

definition equal_cost :: "pyfloat option \<Rightarrow> pyfloat option \<Rightarrow> bool" where
  "equal_cost a b \<longleftrightarrow> a = b \<and> a \<noteq> Some NaN"

definition equal_results :: "ReviewResult \<Rightarrow> ReviewResult \<Rightarrow> bool" where
  "equal_results a b \<longleftrightarrow>
     provider a = provider b \<and> model a = model b \<and> timestamp a = timestamp b \<and>
     summary a = summary b \<and> strengths a = strengths b \<and> issues a = issues b \<and>
     suggestions a = suggestions b \<and> raw_response a = raw_response b \<and>
     tokens a = tokens b \<and> equal_cost (estimated_cost a) (estimated_cost b)"

text \<open>
  A result with issues of two severities, suggestions of the three priorities, a timestamp
  with microseconds, token counts and a cost.
\<close>

definition rich_result :: ReviewResult where
  "rich_result =
     (parse_review_response (example_now\<lparr>microsecond := 7\<rparr>)
        (str ''## Issues'' @ [0xA] @ str ''Major: slow'' @ [0xA] @ str ''minor nit'' @ [0xA] @
         str ''## Suggestions'' @ [0xA] @ str ''- urgent fix'' @ [0xA] @
         str ''- consider rename'' @ [0xA] @ str ''- add tests'')
        (str ''claude'') (str ''opus''))
     \<lparr>tokens := Some \<lparr>input_tokens = 10, output_tokens = 20, total_tokens = 30\<rparr>,
      estimated_cost := Some (Finite (1 / 2))\<rparr>"

section \<open>Properties of normalisation\<close>

lemma process_loop_eq:
  "process_loop fs i d ds =
     (fs @ List.map_filter process_single_diff ds,
      i + sum_list (map additions (List.map_filter process_single_diff ds)),
      d + sum_list (map deletions (List.map_filter process_single_diff ds)))"
  by (induction ds arbitrary: fs i d) (auto split: option.splits)

lemma files_process_diffs:
  "files (process_diffs ds m br) = List.map_filter process_single_diff ds"
  by (simp add: process_diffs_def process_loop_eq)

text \<open>After normalisation the stats are the aggregates of the file list.\<close>

lemma process_diffs_stats:
  "files_changed (stats (process_diffs ds m br)) = int (length (files (process_diffs ds m br))) \<and>
   insertions (stats (process_diffs ds m br)) = sum_list (map additions (files (process_diffs ds m br))) \<and>
   deletions_total (stats (process_diffs ds m br)) =
     sum_list (map deletions (files (process_diffs ds m br)))"
  by (simp add: process_diffs_def process_loop_eq)

lemma map_filter_append:
  "List.map_filter f (xs @ ys) = List.map_filter f xs @ List.map_filter f ys"
  by (simp add: List.map_filter_def)

section \<open>The working-tree scope\<close>

text \<open>
  C7. For the working-tree scope the file list is the staged changes followed by the
  unstaged changes, in one list and without deduplication: a path occurs in the result as
  often as in the two contributions together, so a path present in both occurs at least
  twice.
\<close>

theorem working_diff_is_concatenation:
  "files (get_working_diff staged unstaged br) =
     files (process_diffs staged None br) @ files (process_diffs unstaged None br) \<and>
   count_list (map path (files (get_working_diff staged unstaged br))) p =
     count_list (map path (files (process_diffs staged None br))) p +
     count_list (map path (files (process_diffs unstaged None br))) p \<and>
   (p \<in> set (map path (files (process_diffs staged None br))) \<and>
    p \<in> set (map path (files (process_diffs unstaged None br))) \<longrightarrow>
    2 \<le> count_list (map path (files (get_working_diff staged unstaged br))) p)"
proof -
  let ?s = "files (process_diffs staged None br)"
  let ?u = "files (process_diffs unstaged None br)"
  have cat: "files (get_working_diff staged unstaged br) = ?s @ ?u"
    by (simp add: get_working_diff_def files_process_diffs map_filter_append)
  have cnt: "count_list (map path (?s @ ?u)) p =
      count_list (map path ?s) p + count_list (map path ?u) p"
    by simp
  have twice: "2 \<le> count_list (map path (?s @ ?u)) p"
    if "p \<in> set (map path ?s)" "p \<in> set (map path ?u)"
  proof -
    have "0 < count_list (map path ?s) p" "0 < count_list (map path ?u) p"
      using that by (simp_all only: count_list_0_iff neq0_conv[symmetric]) auto
    then show ?thesis using cnt by linarith
  qed
  show ?thesis using cat cnt twice by simp
qed

theorem working_diff_is_concatenation_witness:
  "map path (files (get_working_diff [staged_example] [unstaged_example] (str ''main''))) =
     [str ''app.py'', str ''app.py''] \<and>
   2 \<le> count_list
     (map path (files (get_working_diff [staged_example] [unstaged_example] (str ''main''))))
     (str ''app.py'')"
proof -
  have s: "files (process_diffs [staged_example] None (str ''main'')) =
      [\<lparr>path = str ''app.py'', status = MODIFIED, additions = 1, deletions = 1,
        patch = Some (str ''+x'' @ [0xA] @ str ''-y'')\<rparr>]"
    by code_simp
  have u: "files (process_diffs [unstaged_example] None (str ''main'')) =
      [\<lparr>path = str ''app.py'', status = DELETED, additions = 0, deletions = 0, patch = None\<rparr>]"
    by code_simp
  show ?thesis
    using working_diff_is_concatenation
      [of "[staged_example]" "[unstaged_example]" "str ''main''" "str ''app.py''"]
    unfolding s u by simp
qed

section \<open>Records that fail\<close>

text \<open>
  C10. A raw change record whose processing fails yields no file change: so does a record
  with neither a post-change nor a pre-change path, and so does one whose attribute reads
  raise. Normalisation leaves such a record out: the diff, with its files and its three
  aggregate stats, is the one obtained without the record.
\<close>

theorem failed_record_is_omitted:
  "(\<not> truthy (b_path r) \<and> \<not> truthy (a_path r) \<longrightarrow> process_single_diff (Diff r) = None) \<and>
   process_single_diff Unreadable = None \<and>
   (process_single_diff d = None \<longrightarrow>
      process_diffs (xs @ d # ys) m br = process_diffs (xs @ ys) m br)"
proof -
  have a: "process_single_diff (Diff r) = None" if "\<not> truthy (b_path r)" "\<not> truthy (a_path r)"
    using that by (simp add: process_raw_diff_def)
  have b: "process_diffs (xs @ d # ys) m br = process_diffs (xs @ ys) m br"
    if "process_single_diff d = None"
    using that by (simp add: process_diffs_def process_loop_eq map_filter_append)
  show ?thesis using a b by simp
qed

theorem failed_record_is_omitted_witness:
  "\<not> truthy (b_path pathless_example) \<and> \<not> truthy (a_path pathless_example) \<and>
   process_single_diff (Diff pathless_example) = None \<and>
   process_diffs ([staged_example] @ Diff pathless_example # [unstaged_example]) None
     (str ''main'') =
     process_diffs ([staged_example] @ [unstaged_example]) None (str ''main'') \<and>
   stats (process_diffs ([staged_example] @ Diff pathless_example # [unstaged_example]) None
     (str ''main'')) = \<lparr>files_changed = 2, insertions = 1, deletions_total = 1\<rparr>"
proof -
  have h: "\<not> truthy (b_path pathless_example) \<and> \<not> truthy (a_path pathless_example)"
    by (simp add: pathless_example_def truthy_def)
  have st: "stats (process_diffs ([staged_example] @ [unstaged_example]) None (str ''main'')) =
      \<lparr>files_changed = 2, insertions = 1, deletions_total = 1\<rparr>"
    by code_simp
  show ?thesis
    using h st failed_record_is_omitted
      [of pathless_example "Diff pathless_example" "[staged_example]" "[unstaged_example]" None
        "str ''main''"]
    by simp
qed

section \<open>The file filter\<close>

lemma filter_loop_eq:
  "filter_loop fm config acc fs = acc @ filter (reviewable fm config) fs"
  by (induction fs arbitrary: acc) (auto simp: reviewable_def list_ex_iff)

text \<open>
  C6. With a positive cap, as the configuration type requires, the filtered diff holds the
  reviewable files (no exclude glob matches, some include glob matches) in their original
  order, cut to the first \<open>max_files_per_review\<close>; a warning is printed exactly when the
  cut removes files; and \<open>run_review\<close> raises instead of going on when no file is left.
\<close>

theorem file_filter_rule:
  assumes "0 < max_files_per_review config"
  shows "files (fst (filter_files fm d config)) =
           take (nat (max_files_per_review config)) (filter (reviewable fm config) (files d)) \<and>
         (snd (filter_files fm d config) \<noteq> [] \<longleftrightarrow>
            max_files_per_review config < int (length (filter (reviewable fm config) (files d)))) \<and>
         (filter (reviewable fm config) (files d) = [] \<longrightarrow>
            snd (run_review_filter fm d config) =
              Inl (ValueError (if files d = [] then str ''No changes found to review''
                               else str ''No files to review after filtering''))) \<and>
         (filter (reviewable fm config) (files d) \<noteq> [] \<longrightarrow>
            run_review_filter fm d config =
              (snd (filter_files fm d config), Inr (fst (filter_files fm d config))))"
proof -
  let ?kept = "filter (reviewable fm config) (files d)"
  have fs: "files (fst (filter_files fm d config)) = take (nat (max_files_per_review config)) ?kept"
    using assms by (simp add: filter_files_def filter_loop_eq Let_def slice_to_def)
  have warn: "snd (filter_files fm d config) \<noteq> [] \<longleftrightarrow>
      max_files_per_review config < int (length ?kept)"
    by (simp add: filter_files_def filter_loop_eq Let_def)
  have empty: "files (fst (filter_files fm d config)) = [] \<longleftrightarrow> ?kept = []"
    using assms by (simp add: fs)
  have e: "snd (run_review_filter fm d config) =
      Inl (ValueError (if files d = [] then str ''No changes found to review''
                       else str ''No files to review after filtering''))"
    if "?kept = []"
    using that empty by (simp add: run_review_filter_def Let_def)
  have ok: "run_review_filter fm d config =
      (snd (filter_files fm d config), Inr (fst (filter_files fm d config)))"
    if "?kept \<noteq> []"
  proof -
    from that have "files d \<noteq> []" by auto
    then show ?thesis using that empty by (simp add: run_review_filter_def Let_def)
  qed
  show ?thesis using fs warn e ok by blast
qed

theorem file_filter_rule_witness:
  "0 < max_files_per_review example_config \<and>
   map path (files (fst (filter_files glob_match example_diff example_config))) = [str ''src/a.py''] \<and>
   snd (filter_files glob_match example_diff example_config) \<noteq> [] \<and>
   0 < max_files_per_review excluding_config \<and>
   snd (run_review_filter glob_match example_diff excluding_config) =
     Inl (ValueError (str ''No files to review after filtering''))"
proof -
  have m1: "max_files_per_review example_config = 1"
    by (simp add: example_config_def)
  have m2: "max_files_per_review excluding_config = 50"
    by (simp add: excluding_config_def)
  have k1: "map path (filter (reviewable glob_match example_config) (files example_diff)) =
      [str ''src/a.py'', str ''b.py'']"
    by code_simp
  have k2: "filter (reviewable glob_match excluding_config) (files example_diff) = []"
    by code_simp
  have ne: "files example_diff \<noteq> []"
    by code_simp
  have a: "map path (files (fst (filter_files glob_match example_diff example_config))) =
      [str ''src/a.py'']"
    using file_filter_rule [of example_config glob_match example_diff] m1 k1
    by (simp add: take_map [symmetric])
  have b: "snd (filter_files glob_match example_diff example_config) \<noteq> []"
    using file_filter_rule [of example_config glob_match example_diff] m1
      arg_cong [OF k1, of length]
    by simp
  have c: "snd (run_review_filter glob_match example_diff excluding_config) =
      Inl (ValueError (str ''No files to review after filtering''))"
    using file_filter_rule [of excluding_config glob_match example_diff] m2 k2 ne
    by simp
  show ?thesis using m1 m2 a b c by simp
qed

text \<open>
  C2. The stats after filtering: the filter hands on the stats of its input. On the example
  the input diff has four files and stats that count four; the filtered diff has one file,
  with one added line, and still the stats of the four.
\<close>

theorem filtered_diff_keeps_input_stats:
  "stats example_diff = \<lparr>files_changed = 4, insertions = 4, deletions_total = 0\<rparr> \<and>
   length (files example_diff) = 4 \<and>
   stats (fst (filter_files glob_match example_diff example_config)) =
     \<lparr>files_changed = 4, insertions = 4, deletions_total = 0\<rparr> \<and>
   length (files (fst (filter_files glob_match example_diff example_config))) = 1 \<and>
   sum_list (map additions (files (fst (filter_files glob_match example_diff example_config)))) = 1"
  by code_simp

section \<open>Suggestions\<close>

lemma split_not_Nil: "split sep s \<noteq> []"
  by (induction s) (auto simp: Let_def)

lemma hd_split: "hd (split sep s) = takeWhile (\<lambda>c. c \<noteq> sep) s"
  by (induction s) (auto simp: Let_def)

lemma sublist_single: "sublist [c] s \<longleftrightarrow> c \<in> set s"
  by (induction s) (auto simp: sublist_Cons_right)

lemma str_of_int_Suc: "str_of_int (int i + 1) = digits (Suc i)"
proof -
  have "nat (int i + 1) = Suc i" by simp
  then show ?thesis by (simp add: str_of_int_def)
qed

lemma suggestion_step:
  "\<lparr>suggestion_id = str ''suggestion-'' @ str_of_int (int i + 1),
    title = (if sublist (str ''.'') item then hd (split 0x2E item) else slice_to 50 item),
    suggestion_description = item, suggestion_files = [],
    priority =
      (if list_ex (\<lambda>w. sublist w (lower item))
            [str ''urgent'', str ''critical'', str ''important''] then HIGH
       else if list_ex (\<lambda>w. sublist w (lower item))
            [str ''minor'', str ''optional'', str ''consider''] then LOW
       else MEDIUM),
    completed = False, example = None\<rparr> = spec_suggestion (Suc i) item"
proof -
  have dot: "str ''.'' = [0x2E]" by (simp add: str_def)
  have t: "(if sublist (str ''.'') item then hd (split 0x2E item) else slice_to 50 item) =
      spec_title item"
    by (simp add: dot sublist_single hd_split spec_title_def slice_to_def)
  have p: "(if list_ex (\<lambda>w. sublist w (lower item))
            [str ''urgent'', str ''critical'', str ''important''] then HIGH
       else if list_ex (\<lambda>w. sublist w (lower item))
            [str ''minor'', str ''optional'', str ''consider''] then LOW
       else MEDIUM) = spec_priority item"
    by (simp add: spec_priority_def)
  show ?thesis
    unfolding t p str_of_int_Suc by (simp add: spec_suggestion_def)
qed

lemma suggestions_loop_eq:
  "suggestions_loop out i items =
     out @ map2 spec_suggestion [Suc i ..< Suc i + length items] items"
proof (induction items arbitrary: out i)
  case Nil
  then show ?case by simp
next
  case (Cons item rest)
  have u: "[Suc i ..< Suc i + length (item # rest)] =
      Suc i # [Suc (Suc i) ..< Suc (Suc i) + length rest]"
    by (simp add: upt_rec)
  show ?case
    unfolding u
    by (simp only: suggestions_loop.simps Let_def suggestion_step Cons.IH) simp
qed

text \<open>
  C5. The suggestions are, in order, the rule of the specification applied to each
  extracted list item with its index counted from 1: the id \<open>suggestion-n\<close>, the title
  before the first \<open>.\<close> or else the first 50 characters, the whole item as description,
  and the priority with the High keywords tested first. The item of the specification gets
  the title \<open>Add input validation\<close> and the priority Medium.
\<close>

theorem suggestions_follow_rule:
  "parse_suggestions content =
     map2 spec_suggestion [1 ..< Suc (length (extract_list_items content))]
       (extract_list_items content) \<and>
   parse_suggestions (str ''- Add input validation. This prevents crashes.'') =
     [\<lparr>suggestion_id = str ''suggestion-1'', title = str ''Add input validation'',
       suggestion_description = str ''Add input validation. This prevents crashes.'',
       suggestion_files = [], priority = MEDIUM, completed = False, example = None\<rparr>]"
proof -
  have g: "parse_suggestions content =
     map2 spec_suggestion [1 ..< Suc (length (extract_list_items content))]
       (extract_list_items content)"
    by (simp add: parse_suggestions_def suggestions_loop_eq)
  have e: "parse_suggestions (str ''- Add input validation. This prevents crashes.'') =
     [\<lparr>suggestion_id = str ''suggestion-1'', title = str ''Add input validation'',
       suggestion_description = str ''Add input validation. This prevents crashes.'',
       suggestion_files = [], priority = MEDIUM, completed = False, example = None\<rparr>]"
    by code_simp
  show ?thesis using g e by simp
qed

theorem suggestions_follow_rule_witness:
  "extract_list_items suggestions_example =
     [str ''Urgent: this is optional'', str ''Consider a rename''] \<and>
   parse_suggestions suggestions_example =
     [\<lparr>suggestion_id = str ''suggestion-1'', title = str ''Urgent: this is optional'',
       suggestion_description = str ''Urgent: this is optional'',
       suggestion_files = [], priority = HIGH, completed = False, example = None\<rparr>,
      \<lparr>suggestion_id = str ''suggestion-2'', title = str ''Consider a rename'',
       suggestion_description = str ''Consider a rename'',
       suggestion_files = [], priority = LOW, completed = False, example = None\<rparr>]"
proof -
  have items: "extract_list_items suggestions_example =
      [str ''Urgent: this is optional'', str ''Consider a rename'']"
    by code_simp
  have s1: "spec_suggestion (Suc 0) (str ''Urgent: this is optional'') =
      \<lparr>suggestion_id = str ''suggestion-1'', title = str ''Urgent: this is optional'',
       suggestion_description = str ''Urgent: this is optional'',
       suggestion_files = [], priority = HIGH, completed = False, example = None\<rparr>"
    by code_simp
  have s2: "spec_suggestion 2 (str ''Consider a rename'') =
      \<lparr>suggestion_id = str ''suggestion-2'', title = str ''Consider a rename'',
       suggestion_description = str ''Consider a rename'',
       suggestion_files = [], priority = LOW, completed = False, example = None\<rparr>"
    by code_simp
  have u: "[1 ..< Suc (length [str ''Urgent: this is optional'', str ''Consider a rename''])] =
      [1, 2]"
    by (simp add: upt_rec)
  show ?thesis
    using suggestions_follow_rule [of suggestions_example]
    unfolding items u by (simp add: s1 s2 items)
qed

section \<open>Sections with the same title\<close>

lemma sections_loop_fold:
  "sections_loop sections t buf ls = fold store_block (section_blocks t buf ls) sections"
  by (induction ls arbitrary: sections t buf) (auto simp: store_block_def split: option.splits)

lemma map_of_fold_store:
  "map_of (fold store_block bs sections) k =
     (case filter (\<lambda>b. fst b = k \<and> snd b \<noteq> []) bs of
        [] \<Rightarrow> map_of sections k
      | c # cs \<Rightarrow> Some (join [0xA] (snd (last (c # cs)))))"
proof (induction bs arbitrary: sections)
  case Nil
  then show ?case by simp
next
  case (Cons b bs)
  have step: "map_of (fold store_block (b # bs) sections) k =
      (case filter (\<lambda>b. fst b = k \<and> snd b \<noteq> []) bs of
         [] \<Rightarrow> map_of (store_block b sections) k
       | c # cs \<Rightarrow> Some (join [0xA] (snd (last (c # cs)))))"
    by (simp add: Cons.IH)
  show ?case
  proof (cases "filter (\<lambda>b. fst b = k \<and> snd b \<noteq> []) bs")
    case Nil
    then show ?thesis
      unfolding step by (simp add: store_block_def update_conv')
  next
    case (Cons c cs)
    then show ?thesis
      unfolding step by simp
  qed
qed

lemma distinct_fold_store:
  "distinct (map fst sections) \<Longrightarrow> distinct (map fst (fold store_block bs sections))"
  by (induction bs arbitrary: sections) (auto simp: store_block_def distinct_update)

text \<open>
  C9, amended. The mapping has one entry per title, and the entry of a title is the content
  of the last section with that title that has at least one line; sections with the same
  title before it are discarded, and so is a section with no line.
\<close>

theorem last_section_with_lines_wins:
  "distinct (map fst (split_into_sections response)) \<and>
   map_of (split_into_sections response) t =
     (case filter (\<lambda>b. fst b = t \<and> snd b \<noteq> []) (blocks_of response) of
        [] \<Rightarrow> None
      | c # cs \<Rightarrow> Some (join [0xA] (snd (last (c # cs)))))"
  by (simp add: split_into_sections_def blocks_of_def sections_loop_fold map_of_fold_store
      distinct_fold_store split: list.split)

theorem last_section_with_lines_wins_witness:
  "blocks_of repeated_section_example =
     [(str ''general'', []), (str ''A'', [str ''foo'']), (str ''A'', [str ''bar''])] \<and>
   map_of (split_into_sections repeated_section_example) (str ''A'') = Some (str ''bar'')"
proof -
  have b: "blocks_of repeated_section_example =
     [(str ''general'', []), (str ''A'', [str ''foo'']), (str ''A'', [str ''bar''])]"
    by code_simp
  have ne: "str ''general'' \<noteq> str ''A''"
    by (simp add: str_def)
  show ?thesis
    using last_section_with_lines_wins [of repeated_section_example "str ''A''"]
    unfolding b by (simp add: ne)
qed

text \<open>
  C9 as stated fails: the last occurrence of the heading \<open>A\<close> has accumulated no line, yet
  the mapping holds \<open>foo\<close>, the content of the earlier section \<open>A\<close>.
\<close>

theorem last_occurrence_counterexample:
  "blocks_of repeated_heading_example =
     [(str ''general'', []), (str ''A'', [str ''foo'']), (str ''A'', [])] \<and>
   split_into_sections repeated_heading_example = [(str ''A'', str ''foo'')]"
  by code_simp

section \<open>Serialisation\<close>

lemma undigits_snoc: "undigits (s @ [c]) = 10 * undigits s + nat (c - 0x30)"
  by (simp add: undigits_def)

lemma undigits_digits: "undigits (digits n) = n"
proof (induction n rule: digits.induct)
  case (1 n)
  show ?case
  proof (cases "n < 10")
    case True
    then show ?thesis by (subst digits.simps) (simp add: undigits_def)
  next
    case False
    then have "undigits (digits n) = 10 * (n div 10) + n mod 10"
      by (subst digits.simps) (simp add: undigits_snoc "1.IH")
    then show ?thesis by simp
  qed
qed

lemma undigits_zeros: "undigits (replicate k 0x30 @ s) = undigits s"
proof -
  have "foldl (\<lambda>a c. 10 * a + nat (c - 0x30)) 0 (replicate k (0x30::int)) = 0"
    by (induction k) simp_all
  then show ?thesis by (simp add: undigits_def)
qed

lemma zfill_digits_inj: "zfill w (digits n) = zfill w (digits m) \<Longrightarrow> n = m"
proof -
  assume "zfill w (digits n) = zfill w (digits m)"
  then have "undigits (zfill w (digits n)) = undigits (zfill w (digits m))" by simp
  then show ?thesis by (simp only: zfill_def undigits_zeros undigits_digits)
qed

lemma length_digits: "0 < k \<Longrightarrow> n < 10 ^ k \<Longrightarrow> length (digits n) \<le> k"
proof (induction k arbitrary: n)
  case 0
  then show ?case by simp
next
  case (Suc k)
  show ?case
  proof (cases "n < 10")
    case True
    then show ?thesis by (subst digits.simps) simp
  next
    case False
    with Suc.prems have k: "0 < k" by (cases k) auto
    from Suc.prems have "n div 10 < 10 ^ k" by (simp add: less_mult_imp_div_less mult.commute)
    with Suc.IH k have "length (digits (n div 10)) \<le> k" by simp
    with False show ?thesis by (subst digits.simps) simp
  qed
qed

lemma length_zfill: "0 < w \<Longrightarrow> n < 10 ^ w \<Longrightarrow> length (zfill w (digits n)) = w"
  using length_digits [of w n] by (simp add: zfill_def)

lemma isoformat_inj:
  assumes "datetime_ok a" "datetime_ok b" "isoformat a = isoformat b"
  shows "a = b"
proof -
  have la: "length (zfill 4 (digits (year a))) = 4" "length (zfill 2 (digits (month a))) = 2"
    "length (zfill 2 (digits (day a))) = 2" "length (zfill 2 (digits (hour a))) = 2"
    "length (zfill 2 (digits (minute a))) = 2" "length (zfill 2 (digits (second a))) = 2"
    using assms(1) by (simp_all add: datetime_ok_def length_zfill)
  have lb: "length (zfill 4 (digits (year b))) = 4" "length (zfill 2 (digits (month b))) = 2"
    "length (zfill 2 (digits (day b))) = 2" "length (zfill 2 (digits (hour b))) = 2"
    "length (zfill 2 (digits (minute b))) = 2" "length (zfill 2 (digits (second b))) = 2"
    using assms(2) by (simp_all add: datetime_ok_def length_zfill)
  have parts: "zfill 4 (digits (year a)) = zfill 4 (digits (year b))"
    "zfill 2 (digits (month a)) = zfill 2 (digits (month b))"
    "zfill 2 (digits (day a)) = zfill 2 (digits (day b))"
    "zfill 2 (digits (hour a)) = zfill 2 (digits (hour b))"
    "zfill 2 (digits (minute a)) = zfill 2 (digits (minute b))"
    "zfill 2 (digits (second a)) = zfill 2 (digits (second b))"
    "(if microsecond a = 0 then [] else str ''.'' @ zfill 6 (digits (microsecond a))) =
     (if microsecond b = 0 then [] else str ''.'' @ zfill 6 (digits (microsecond b)))"
    using assms(3) la lb by (simp_all add: isoformat_def)
  have dot: "str ''.'' \<noteq> []" by (simp add: str_def)
  have us: "microsecond a = microsecond b"
  proof (cases "microsecond a = 0"; cases "microsecond b = 0")
    assume "microsecond a \<noteq> 0" "microsecond b \<noteq> 0"
    with parts(7) have "zfill 6 (digits (microsecond a)) = zfill 6 (digits (microsecond b))"
      by simp
    then show ?thesis by (rule zfill_digits_inj)
  qed (use parts(7) dot in auto)
  show ?thesis
    using parts(1-6) us by (auto dest!: zfill_digits_inj intro: datetime.equality)
qed

lemma optional_eq:
  "inj f \<Longrightarrow> (\<And>v. f v \<noteq> PyNone) \<Longrightarrow> optional f x = optional f y \<longleftrightarrow> x = y"
  by (cases x; cases y) (auto simp: optional_def dest: injD, metis)

lemma severity_value_eq: "severity_value a = severity_value b \<longleftrightarrow> a = b"
  by (cases a; cases b) (simp_all add: str_def)

lemma priority_value_eq: "priority_value a = priority_value b \<longleftrightarrow> a = b"
  by (cases a; cases b) (simp_all add: str_def)

lemma serialize_issue_eq: "serialize_issue a = serialize_issue b \<longleftrightarrow> a = b"
  by (cases a; cases b)
    (simp add: serialize_issue_def severity_value_eq optional_eq inj_def)

lemma serialize_suggestion_eq: "serialize_suggestion a = serialize_suggestion b \<longleftrightarrow> a = b"
  by (cases a; cases b)
    (simp add: serialize_suggestion_def priority_value_eq optional_eq inj_def)

lemma serialize_tokens_eq: "serialize_tokens a = serialize_tokens b \<longleftrightarrow> a = b"
  by (cases a; cases b) (simp add: serialize_tokens_def)

lemma optional_tokens_eq:
  "optional serialize_tokens x = optional serialize_tokens y \<longleftrightarrow> x = y"
  by (rule optional_eq) (simp_all add: inj_def serialize_tokens_eq, simp add: serialize_tokens_def)

lemma serialize_result_eq:
  "serialize_result r1 = serialize_result r2 \<longleftrightarrow>
     provider r1 = provider r2 \<and> model r1 = model r2 \<and>
     isoformat (timestamp r1) = isoformat (timestamp r2) \<and> summary r1 = summary r2 \<and>
     strengths r1 = strengths r2 \<and> issues r1 = issues r2 \<and> suggestions r1 = suggestions r2 \<and>
     tokens r1 = tokens r2 \<and> estimated_cost r1 = estimated_cost r2"
  by (simp add: serialize_result_def optional_tokens_eq optional_eq inj_def
      serialize_issue_eq serialize_suggestion_eq)

text \<open>
  Two results with timestamps in the range of \<open>datetime\<close> serialise alike exactly when
  they are equal up to \<open>raw_response\<close>.
\<close>

lemma serialisation_injective_up_to_raw_response:
  assumes "datetime_ok (timestamp r1)" "datetime_ok (timestamp r2)"
  shows "serialize_result r1 = serialize_result r2 \<longleftrightarrow>
           r1\<lparr>raw_response := None\<rparr> = r2\<lparr>raw_response := None\<rparr>"
proof
  assume "serialize_result r1 = serialize_result r2"
  then have f: "provider r1 = provider r2" "model r1 = model r2"
    "isoformat (timestamp r1) = isoformat (timestamp r2)" "summary r1 = summary r2"
    "strengths r1 = strengths r2" "issues r1 = issues r2" "suggestions r1 = suggestions r2"
    "tokens r1 = tokens r2" "estimated_cost r1 = estimated_cost r2"
    by (simp_all add: serialize_result_eq)
  from assms f(3) have "timestamp r1 = timestamp r2" by (rule isoformat_inj)
  with f show "r1\<lparr>raw_response := None\<rparr> = r2\<lparr>raw_response := None\<rparr>"
    by (intro ReviewResult.equality) simp_all
next
  assume e: "r1\<lparr>raw_response := None\<rparr> = r2\<lparr>raw_response := None\<rparr>"
  have "serialize_result r1 = serialize_result (r1\<lparr>raw_response := None\<rparr>)"
    "serialize_result r2 = serialize_result (r2\<lparr>raw_response := None\<rparr>)"
    by (simp_all add: serialize_result_def)
  with e show "serialize_result r1 = serialize_result r2" by simp
qed

lemma is_digit_digits: "list_all is_digit (digits n)"
proof (induction n rule: digits.induct)
  case (1 n)
  show ?case
  proof (cases "n < 10")
    case True
    then show ?thesis by (subst digits.simps) (simp add: is_digit_def)
  next
    case False
    have "n mod 10 < 10" by simp
    then have "is_digit (0x30 + int (n mod 10))" unfolding is_digit_def by linarith
    with False "1.IH" show ?thesis by (subst digits.simps) simp
  qed
qed

lemma is_digit_zfill: "list_all is_digit (zfill w (digits n))"
  using is_digit_digits [of n] by (auto simp: zfill_def list_all_iff is_digit_def)

lemma undigits_zfill: "undigits (zfill w (digits n)) = n"
  by (simp only: zfill_def undigits_zeros undigits_digits)

lemma length2: "length xs = 2 \<Longrightarrow> \<exists>a b. xs = [a, b]"
  by (auto simp: length_Suc_conv numeral_2_eq_2)

lemma length4: "length xs = 4 \<Longrightarrow> \<exists>a b c d. xs = [a, b, c, d]"
  by (auto simp: length_Suc_conv numeral_eq_Suc)

lemma length6: "length xs = 6 \<Longrightarrow> \<exists>a b c d e f. xs = [a, b, c, d, e, f]"
  by (auto simp: length_Suc_conv numeral_eq_Suc)

lemma read_iso8601_isoformat:
  assumes "datetime_ok dt"
  shows "read_iso8601 (isoformat dt) = Some dt"
proof -
  define Y where "Y = zfill 4 (digits (year dt))"
  define Mo where "Mo = zfill 2 (digits (month dt))"
  define D where "D = zfill 2 (digits (day dt))"
  define H where "H = zfill 2 (digits (hour dt))"
  define Mi where "Mi = zfill 2 (digits (minute dt))"
  define S where "S = zfill 2 (digits (second dt))"
  define F where "F = zfill 6 (digits (microsecond dt))"
  have len: "length Y = 4" "length Mo = 2" "length D = 2" "length H = 2" "length Mi = 2"
    "length S = 2" "length F = 6"
    using assms by (simp_all add: datetime_ok_def length_zfill Y_def Mo_def D_def H_def Mi_def
        S_def F_def)
  have dig: "list_all is_digit Y" "list_all is_digit Mo" "list_all is_digit D"
    "list_all is_digit H" "list_all is_digit Mi" "list_all is_digit S" "list_all is_digit F"
    by (simp_all add: is_digit_zfill Y_def Mo_def D_def H_def Mi_def S_def F_def)
  have num: "undigits Y = year dt" "undigits Mo = month dt" "undigits D = day dt"
    "undigits H = hour dt" "undigits Mi = minute dt" "undigits S = second dt"
    "undigits F = microsecond dt"
    by (simp_all add: undigits_zfill Y_def Mo_def D_def H_def Mi_def S_def F_def)
  obtain y1 y2 y3 y4 where Y: "Y = [y1, y2, y3, y4]" using length4 [OF len(1)] by blast
  obtain m1 m2 where Mo: "Mo = [m1, m2]" using length2 [OF len(2)] by blast
  obtain d1 d2 where D: "D = [d1, d2]" using length2 [OF len(3)] by blast
  obtain h1 h2 where H: "H = [h1, h2]" using length2 [OF len(4)] by blast
  obtain i1 i2 where Mi: "Mi = [i1, i2]" using length2 [OF len(5)] by blast
  obtain s1 s2 where S: "S = [s1, s2]" using length2 [OF len(6)] by blast
  obtain f1 f2 f3 f4 f5 f6 where F: "F = [f1, f2, f3, f4, f5, f6]"
    using length6 [OF len(7)] by blast
  have iso: "isoformat dt =
      [y1, y2, y3, y4, 0x2D, m1, m2, 0x2D, d1, d2, 0x54, h1, h2, 0x3A, i1, i2, 0x3A, s1, s2] @
      (if microsecond dt = 0 then [] else [0x2E, f1, f2, f3, f4, f5, f6])"
    unfolding isoformat_def Y_def [symmetric] Mo_def [symmetric] D_def [symmetric]
      H_def [symmetric] Mi_def [symmetric] S_def [symmetric] F_def [symmetric]
    by (simp add: Y Mo D H Mi S F str_def)
  have res: "\<lparr>year = undigits [y1, y2, y3, y4], month = undigits [m1, m2],
      day = undigits [d1, d2], hour = undigits [h1, h2], minute = undigits [i1, i2],
      second = undigits [s1, s2],
      microsecond = (if microsecond dt = 0 then 0 else undigits [f1, f2, f3, f4, f5, f6])\<rparr> = dt"
    using num unfolding Y Mo D H Mi S F by (intro datetime.equality) simp_all
  show ?thesis
  proof (cases "microsecond dt = 0")
    case True
    have "read_iso8601 [y1, y2, y3, y4, 0x2D, m1, m2, 0x2D, d1, d2, 0x54, h1, h2, 0x3A, i1, i2,
        0x3A, s1, s2] = Some dt"
      using dig res True unfolding Y Mo D H Mi S F
      by (simp add: read_iso8601_def Let_def)
    with True iso show ?thesis by simp
  next
    case False
    have "read_iso8601 [y1, y2, y3, y4, 0x2D, m1, m2, 0x2D, d1, d2, 0x54, h1, h2, 0x3A, i1, i2,
        0x3A, s1, s2, 0x2E, f1, f2, f3, f4, f5, f6] = Some dt"
      using dig res False unfolding Y Mo D H Mi S F
      by (simp add: read_iso8601_def Let_def)
    with False iso show ?thesis by simp
  qed
qed

lemma those_map_inverse:
  "(\<And>x. f (g x) = Some x) \<Longrightarrow> those (map (f \<circ> g) xs) = Some xs"
  by (induction xs) simp_all

lemma read_optional_str: "read_optional read_str (optional PyStr x) = Some x"
  by (cases x) (simp_all add: optional_def)

lemma read_optional_int: "read_optional read_int (optional PyInt x) = Some x"
  by (cases x) (simp_all add: optional_def)

lemma read_optional_float: "read_optional read_float (optional PyFloat x) = Some x"
  by (cases x) (simp_all add: optional_def)

lemma read_severity_value: "read_severity (severity_value s) = Some s"
  by (cases s) (simp_all add: read_severity_def str_def)

lemma read_priority_value: "read_priority (priority_value p) = Some p"
  by (cases p) (simp_all add: read_priority_def str_def)

lemma read_str_list: "those (map (read_str \<circ> PyStr) xs) = Some xs"
  by (rule those_map_inverse) simp

lemma reparse_issue_inverse: "reparse_issue (serialize_issue i) = Some i"
  by (simp add: reparse_issue_def serialize_issue_def read_severity_value read_optional_str
      read_optional_int str_def)

lemma reparse_suggestion_inverse: "reparse_suggestion (serialize_suggestion s) = Some s"
  by (simp add: reparse_suggestion_def serialize_suggestion_def read_priority_value
      read_optional_str read_str_list str_def)

lemma reparse_tokens_inverse: "reparse_tokens (serialize_tokens t) = Some t"
  by (simp add: reparse_tokens_def serialize_tokens_def str_def)

lemma read_optional_tokens:
  "read_optional reparse_tokens (optional serialize_tokens x) = Some x"
proof (cases x)
  case None
  then show ?thesis by (simp add: optional_def)
next
  case (Some t)
  have "read_optional reparse_tokens (serialize_tokens t) = Some (Some t)"
    using reparse_tokens_inverse [of t] by (simp add: serialize_tokens_def)
  with Some show ?thesis by (simp add: optional_def)
qed

lemma reparse_result_inverse:
  assumes "datetime_ok (timestamp r)"
  shows "reparse_result (serialize_result r) = Some (r\<lparr>raw_response := None\<rparr>)"
proof -
  have keys: "entry (str ''provider'') (serialize_result r) = Some (PyStr (provider r))"
    "entry (str ''model'') (serialize_result r) = Some (PyStr (model r))"
    "entry (str ''timestamp'') (serialize_result r) = Some (PyStr (isoformat (timestamp r)))"
    "entry (str ''summary'') (serialize_result r) = Some (PyStr (summary r))"
    "entry (str ''strengths'') (serialize_result r) = Some (PyList (map PyStr (strengths r)))"
    "entry (str ''issues'') (serialize_result r) = Some (PyList (map serialize_issue (issues r)))"
    "entry (str ''suggestions'') (serialize_result r) =
       Some (PyList (map serialize_suggestion (suggestions r)))"
    "entry (str ''tokens'') (serialize_result r) = Some (optional serialize_tokens (tokens r))"
    "entry (str ''estimated_cost'') (serialize_result r) =
       Some (optional PyFloat (estimated_cost r))"
    by (simp_all add: serialize_result_def str_def)
  have lists: "those (map (reparse_issue \<circ> serialize_issue) (issues r)) = Some (issues r)"
    "those (map (reparse_suggestion \<circ> serialize_suggestion) (suggestions r)) =
       Some (suggestions r)"
    by (simp_all add: those_map_inverse reparse_issue_inverse reparse_suggestion_inverse)
  show ?thesis
    unfolding reparse_result_def keys
    by (simp add: read_iso8601_isoformat [OF assms] read_str_list lists read_optional_tokens
        read_optional_float)
qed

text \<open>
  C8, amended. For a result with a naive timestamp, re-parsing the serialised form gives
  back a result equal to the original field for field, except for \<open>raw_response\<close>, which
  is not written and comes back absent (the equality is Python's, so the cost must not be
  not-a-number). The timestamp is written in ISO 8601 and read back from it, and the
  severity of an issue and the priority of a suggestion are written as their lower-case
  names.
\<close>

theorem reparsing_restores_all_but_raw_response:
  assumes "datetime_ok (timestamp r)" and "estimated_cost r \<noteq> Some NaN"
  shows "(\<exists>r'. reparse_result (serialize_result r) = Some r' \<and>
               r' = r\<lparr>raw_response := None\<rparr> \<and>
               equal_results r' (r\<lparr>raw_response := None\<rparr>)) \<and>
         entry (str ''timestamp'') (serialize_result r) = Some (PyStr (isoformat (timestamp r))) \<and>
         read_iso8601 (isoformat (timestamp r)) = Some (timestamp r) \<and>
         entry (str ''issues'') (serialize_result r) =
           Some (PyList (map serialize_issue (issues r))) \<and>
         entry (str ''suggestions'') (serialize_result r) =
           Some (PyList (map serialize_suggestion (suggestions r))) \<and>
         entry (str ''severity'') (serialize_issue i) =
           Some (PyStr (case severity i of
                          CRITICAL \<Rightarrow> str ''critical''
                        | MAJOR \<Rightarrow> str ''major''
                        | MINOR \<Rightarrow> str ''minor'')) \<and>
         entry (str ''priority'') (serialize_suggestion s) =
           Some (PyStr (case priority s of
                          HIGH \<Rightarrow> str ''high''
                        | MEDIUM \<Rightarrow> str ''medium''
                        | LOW \<Rightarrow> str ''low''))"
proof -
  have rt: "reparse_result (serialize_result r) = Some (r\<lparr>raw_response := None\<rparr>)"
    using assms(1) by (rule reparse_result_inverse)
  have eq: "equal_results (r\<lparr>raw_response := None\<rparr>) (r\<lparr>raw_response := None\<rparr>)"
    using assms(2) by (simp add: equal_results_def equal_cost_def)
  have ts: "entry (str ''timestamp'') (serialize_result r) =
      Some (PyStr (isoformat (timestamp r)))"
    by (simp add: serialize_result_def str_def)
  have iso: "read_iso8601 (isoformat (timestamp r)) = Some (timestamp r)"
    using assms(1) by (rule read_iso8601_isoformat)
  have iss: "entry (str ''issues'') (serialize_result r) =
      Some (PyList (map serialize_issue (issues r)))"
    by (simp add: serialize_result_def str_def)
  have sgs: "entry (str ''suggestions'') (serialize_result r) =
      Some (PyList (map serialize_suggestion (suggestions r)))"
    by (simp add: serialize_result_def str_def)
  have sev: "entry (str ''severity'') (serialize_issue i) =
      Some (PyStr (case severity i of
                     CRITICAL \<Rightarrow> str ''critical''
                   | MAJOR \<Rightarrow> str ''major''
                   | MINOR \<Rightarrow> str ''minor''))"
    by (cases "severity i") (simp_all add: serialize_issue_def)
  have pri: "entry (str ''priority'') (serialize_suggestion s) =
      Some (PyStr (case priority s of
                     HIGH \<Rightarrow> str ''high''
                   | MEDIUM \<Rightarrow> str ''medium''
                   | LOW \<Rightarrow> str ''low''))"
    by (cases "priority s") (simp_all add: serialize_suggestion_def str_def)
  show ?thesis using rt eq ts iso iss sgs sev pri by simp
qed

theorem reparsing_restores_all_but_raw_response_witness:
  "datetime_ok (timestamp rich_result) \<and>
   estimated_cost rich_result \<noteq> Some NaN \<and>
   reparse_result (serialize_result rich_result) = Some (rich_result\<lparr>raw_response := None\<rparr>) \<and>
   equal_results (rich_result\<lparr>raw_response := None\<rparr>) (rich_result\<lparr>raw_response := None\<rparr>) \<and>
   serialize_result rich_result =
     PyDict
       [(str ''provider'', PyStr (str ''claude'')),
        (str ''model'', PyStr (str ''opus'')),
        (str ''timestamp'', PyStr (str ''2024-01-02T03:04:05.000007'')),
        (str ''summary'', PyStr []),
        (str ''strengths'', PyList []),
        (str ''issues'',
         PyList
           [PyDict
              [(str ''severity'', PyStr (str ''major'')),
               (str ''type'', PyStr (str ''general'')),
               (str ''file'', PyNone),
               (str ''line'', PyNone),
               (str ''description'', PyStr (str ''slow'')),
               (str ''suggestion'', PyNone),
               (str ''code_example'', PyNone)],
            PyDict
              [(str ''severity'', PyStr (str ''minor'')),
               (str ''type'', PyStr (str ''general'')),
               (str ''file'', PyNone),
               (str ''line'', PyNone),
               (str ''description'', PyStr (str ''nit'')),
               (str ''suggestion'', PyNone),
               (str ''code_example'', PyNone)]]),
        (str ''suggestions'',
         PyList
           [PyDict
              [(str ''id'', PyStr (str ''suggestion-1'')),
               (str ''title'', PyStr (str ''urgent fix'')),
               (str ''description'', PyStr (str ''urgent fix'')),
               (str ''files'', PyList []),
               (str ''priority'', PyStr (str ''high'')),
               (str ''completed'', PyBool False),
               (str ''example'', PyNone)],
            PyDict
              [(str ''id'', PyStr (str ''suggestion-2'')),
               (str ''title'', PyStr (str ''consider rename'')),
               (str ''description'', PyStr (str ''consider rename'')),
               (str ''files'', PyList []),
               (str ''priority'', PyStr (str ''low'')),
               (str ''completed'', PyBool False),
               (str ''example'', PyNone)],
            PyDict
              [(str ''id'', PyStr (str ''suggestion-3'')),
               (str ''title'', PyStr (str ''add tests'')),
               (str ''description'', PyStr (str ''add tests'')),
               (str ''files'', PyList []),
               (str ''priority'', PyStr (str ''medium'')),
               (str ''completed'', PyBool False),
               (str ''example'', PyNone)]]),
        (str ''tokens'',
         PyDict
           [(str ''input'', PyInt 10), (str ''output'', PyInt 20), (str ''total'', PyInt 30)]),
        (str ''estimated_cost'', PyFloat (Finite (1 / 2)))]"
proof -
  have t: "timestamp rich_result = example_now\<lparr>microsecond := 7\<rparr>"
    by code_simp
  have ok: "datetime_ok (example_now\<lparr>microsecond := 7\<rparr>)"
    by (simp add: datetime_ok_def example_now_def)
  have c: "estimated_cost rich_result \<noteq> Some NaN"
    by (simp add: rich_result_def)
  have v: "serialize_result rich_result =
     PyDict
       [(str ''provider'', PyStr (str ''claude'')),
        (str ''model'', PyStr (str ''opus'')),
        (str ''timestamp'', PyStr (str ''2024-01-02T03:04:05.000007'')),
        (str ''summary'', PyStr []),
        (str ''strengths'', PyList []),
        (str ''issues'',
         PyList
           [PyDict
              [(str ''severity'', PyStr (str ''major'')),
               (str ''type'', PyStr (str ''general'')),
               (str ''file'', PyNone),
               (str ''line'', PyNone),
               (str ''description'', PyStr (str ''slow'')),
               (str ''suggestion'', PyNone),
               (str ''code_example'', PyNone)],
            PyDict
              [(str ''severity'', PyStr (str ''minor'')),
               (str ''type'', PyStr (str ''general'')),
               (str ''file'', PyNone),
               (str ''line'', PyNone),
               (str ''description'', PyStr (str ''nit'')),
               (str ''suggestion'', PyNone),
               (str ''code_example'', PyNone)]]),
        (str ''suggestions'',
         PyList
           [PyDict
              [(str ''id'', PyStr (str ''suggestion-1'')),
               (str ''title'', PyStr (str ''urgent fix'')),
               (str ''description'', PyStr (str ''urgent fix'')),
               (str ''files'', PyList []),
               (str ''priority'', PyStr (str ''high'')),
               (str ''completed'', PyBool False),
               (str ''example'', PyNone)],
            PyDict
              [(str ''id'', PyStr (str ''suggestion-2'')),
               (str ''title'', PyStr (str ''consider rename'')),
               (str ''description'', PyStr (str ''consider rename'')),
               (str ''files'', PyList []),
               (str ''priority'', PyStr (str ''low'')),
               (str ''completed'', PyBool False),
               (str ''example'', PyNone)],
            PyDict
              [(str ''id'', PyStr (str ''suggestion-3'')),
               (str ''title'', PyStr (str ''add tests'')),
               (str ''description'', PyStr (str ''add tests'')),
               (str ''files'', PyList []),
               (str ''priority'', PyStr (str ''medium'')),
               (str ''completed'', PyBool False),
               (str ''example'', PyNone)]]),
        (str ''tokens'',
         PyDict
           [(str ''input'', PyInt 10), (str ''output'', PyInt 20), (str ''total'', PyInt 30)]),
        (str ''estimated_cost'', PyFloat (Finite (1 / 2)))]"
    by code_simp
  show ?thesis
    using reparsing_restores_all_but_raw_response
      [of rich_result "new_issue MAJOR []" "spec_suggestion 1 []"] t ok c v
    by simp
qed

text \<open>
  C8 as stated fails: the result of interpreting a response retains the response in
  \<open>raw_response\<close>; the result without it is a different result with the same serialised
  form, so no reading of that form gives back both.
\<close>

theorem raw_response_lost_counterexample:
  "raw_response example_result = Some (str ''## Issues'' @ [0xA] @ str ''Critical: leak'') \<and>
   example_result\<lparr>raw_response := None\<rparr> \<noteq> example_result \<and>
   serialize_result (example_result\<lparr>raw_response := None\<rparr>) = serialize_result example_result"
proof -
  have r: "raw_response example_result = Some (str ''## Issues'' @ [0xA] @ str ''Critical: leak'')"
    by code_simp
  have d: "example_result\<lparr>raw_response := None\<rparr> \<noteq> example_result"
  proof
    assume "example_result\<lparr>raw_response := None\<rparr> = example_result"
    then have "raw_response (example_result\<lparr>raw_response := None\<rparr>) = raw_response example_result"
      by simp
    with r show False by simp
  qed
  have s: "serialize_result (example_result\<lparr>raw_response := None\<rparr>) =
      serialize_result example_result"
    by (simp add: serialize_result_def)
  show ?thesis using r d s by simp
qed

section \<open>The interpreter does not raise\<close>










section \<open>Issues\<close>

text \<open>
  C3. A line whose only severity cue is the red circle U+1F534 is not taken as a marker:
  the glyph literal of the source is four other code points, so the section yields no issue.
  The same holds for the yellow and the green circle.
\<close>

theorem red_circle_is_no_marker:
  "parse_issues ([0x1F534] @ str '' Null check missing'') = [] \<and>
   parse_issues ([0x1F7E1] @ str '' Slow loop'') = [] \<and>
   parse_issues ([0x1F7E2] @ str '' Style nit'') = [] \<and>
   utf8_decode [0xF0, 0x9F, 0x94, 0xB4] = Some [0x1F534] \<and>
   red_glyph \<noteq> [0x1F534]"
  by code_simp

text \<open>
  C4. On the text of the specification, with the coloured circles, the interpreter does not
  give the two issues: the first line is no marker, because the glyph literals of the source
  are not the circles, the second line finds no open issue, and the only issue is the Minor
  one, whose description keeps the circle and has lost the word \<open>Minor\<close>.
\<close>

theorem specification_text_gives_one_issue:
  "parse_issues circles_example =
     [\<lparr>severity = MINOR, issue_type = str ''general'', issue_file = None, line = None,
       description = [0x1F7E2] @ str '' style nit'', suggestion = None, code_example = None\<rparr>]"
  by code_simp

text \<open>
  Marked by keywords instead of glyphs, the same three lines give the two issues; the
  severity keyword is removed from each description, so the second is \<open>style nit\<close>.
\<close>

lemma keywords_give_two_issues:
  "parse_issues keywords_example =
     [\<lparr>severity = CRITICAL, issue_type = str ''general'', issue_file = None, line = None,
       description = str ''Null check missing Also crashes on empty input'', suggestion = None,
       code_example = None\<rparr>,
      \<lparr>severity = MINOR, issue_type = str ''general'', issue_file = None, line = None,
       description = str ''style nit'', suggestion = None, code_example = None\<rparr>]"
  by code_simp

text \<open>So does the text with the glyphs as the source file spells them.\<close>

lemma source_literals_give_two_issues:
  "parse_issues literals_example = parse_issues keywords_example"
  by code_simp

section \<open>The issue loop as a grouping of lines\<close>

lemma issues_loop_groups:
  "issues_loop out cur ls =
     out @
     (case cur of
        None \<Rightarrow> []
      | Some i \<Rightarrow>
          [i\<lparr>description := description i @ joined (fst (foldr collect (map strip ls) ([], [])))\<rparr>]) @
     map issue_of (snd (foldr collect (map strip ls) ([], [])))"
proof (induction ls arbitrary: out cur)
  case Nil
  then show ?case by (simp add: joined_def split: option.splits)
next
  case (Cons l ls)
  obtain conts gs where p: "foldr collect (map strip ls) ([], []) = (conts, gs)"
    by (cases "foldr collect (map strip ls) ([], [])")
  show ?case
  proof (cases "severity_of (strip l)")
    case None
    then have chain:
      "\<not> (sublist red_glyph (strip l) \<or> sublist (str ''critical'') (lower (strip l)))"
      "\<not> (sublist yellow_glyph (strip l) \<or> sublist (str ''major'') (lower (strip l)))"
      "\<not> (sublist green_glyph (strip l) \<or> sublist (str ''minor'') (lower (strip l)))"
      by (auto simp: severity_of_def split: if_splits)
    show ?thesis
      using chain None
      by (cases cur) (simp_all add: Let_def Cons.IH p joined_def)
  next
    case (Some sev)
    have step: "issues_loop out cur (l # ls) =
        issues_loop (case cur of Some i \<Rightarrow> out @ [i] | None \<Rightarrow> out)
          (Some (new_issue sev (strip l))) ls"
      using Some by (auto simp: severity_of_def Let_def split: if_splits)
    show ?thesis
      unfolding step
      by (cases cur) (simp_all add: Cons.IH p Some joined_def issue_of_def new_issue_def)
  qed
qed

text \<open>
  The issues of a section are its marker lines, in order, each with the non-empty lines
  that follow it joined on by spaces; lines before the first marker are ignored, and a
  section without marker lines has no issue.
\<close>

lemma issues_follow_markers:
  "parse_issues content = map issue_of (issue_groups (map strip (split 0xA content)))"
  by (simp add: parse_issues_def issues_loop_groups issue_groups_def)

lemma no_marker_no_issue:
  assumes "\<forall>l \<in> set ls. severity_of l = None"
  shows "issue_groups ls = []"
proof -
  have "snd (foldr collect ls a) = snd a" for a
    using assms
  proof (induction ls)
    case Nil
    then show ?case by simp
  next
    case (Cons l ls)
    then show ?case
      by (cases "foldr collect ls a") auto
  qed
  then show ?thesis by (simp add: issue_groups_def)
qed

end
